theory Spec2Isabelle
  imports Complex_Main "HOL-Library.Sublist" "HOL-Library.AList"
begin

section \<open>JavaScript values and strings\<close>

text \<open>
  A string is the list of its UTF-16 code units, and a \<open>char\<close> holds a code unit below
  256, so the strings of the model are those of ASCII and Latin-1 characters, one code
  unit each. On these \<open>toLowerCase\<close> is JavaScript's: it maps \<open>A..Z\<close> (65 to 90) and the
  Latin-1 capitals (192 to 222 without the multiplication sign 215) to the code unit 32
  above and leaves every other code unit alone. \<open>js_includes s sub\<close> is
  \<open>s.includes(sub)\<close>, the test for a contiguous occurrence of \<open>sub\<close> in \<open>s\<close>;
  \<open>substring04 s\<close> is \<open>s.substring(0, 4)\<close>.
\<close>

definition lower_char :: "char \<Rightarrow> char" where
  "lower_char c =
     (let n = (of_char c :: nat)
      in if (65 \<le> n \<and> n \<le> 90) \<or> (192 \<le> n \<and> n \<le> 222 \<and> n \<noteq> 215)
         then char_of (n + 32) else c)"

definition toLowerCase :: "string \<Rightarrow> string" where
  "toLowerCase s = map lower_char s"

fun js_includes :: "string \<Rightarrow> string \<Rightarrow> bool" where
  "js_includes [] sub = (sub = [])"
| "js_includes (c # s) sub = (prefix sub (c # s) \<or> js_includes s sub)"

definition substring04 :: "string \<Rightarrow> string" where
  "substring04 s = take 4 s"

text \<open>
  A value of type \<open>any\<close>. \<open>JUndefined\<close> is JavaScript's \<open>undefined\<close>, \<open>JObject\<close> stands for
  any object or function value (its contents play no role in the code modelled here).
\<close>

datatype jsval = JUndefined | JNull | JBool bool | JNum rat | JStr string | JObject

text \<open>
  A \<open>Record<string, any>\<close> is the list of its own enumerable properties in the order
  \<open>Object.keys\<close> and \<open>Object.entries\<close> enumerate them. A property read \<open>obj[k]\<close> finds an
  own property first and falls back to \<open>Object.prototype\<close>, whose twelve properties
  are all defined values; every other key reads as \<open>undefined\<close>.
\<close>

type_synonym js_record = "(string \<times> jsval) list"

definition object_prototype_keys :: "string list" where
  "object_prototype_keys =
     [''constructor'', ''__defineGetter__'', ''__defineSetter__'', ''hasOwnProperty'',
      ''__lookupGetter__'', ''__lookupSetter__'', ''isPrototypeOf'',
      ''propertyIsEnumerable'', ''toString'', ''valueOf'', ''__proto__'',
      ''toLocaleString'']"

definition js_get :: "js_record \<Rightarrow> string \<Rightarrow> jsval" where
  "js_get obj k =
     (case map_of obj k of
        Some v \<Rightarrow> v
      | None \<Rightarrow> if k \<in> set object_prototype_keys then JObject else JUndefined)"

definition object_keys :: "js_record \<Rightarrow> string list" where
  "object_keys obj = map fst obj"

text \<open>
  The enumeration order of an object's keys: first the keys that are array indices (the
  decimal numerals, without leading zero, of the numbers up to \<open>2^32 - 2\<close>), in ascending
  numeric order, then all other keys in the order of their creation. Two such numerals
  compare as their numbers do when the shorter one, or of two of equal length the
  lexicographically smaller one, counts as less. \<open>js_set k v obj\<close> is the assignment
  \<open>obj[k] = v\<close>: a key already present keeps its place and takes the new value, a new
  array index is put at its numeric place among the indices, any other new key goes to
  the end.
\<close>

definition is_digit :: "char \<Rightarrow> bool" where
  "is_digit c = (48 \<le> (of_char c :: nat) \<and> (of_char c :: nat) \<le> 57)"

fun lex_less :: "string \<Rightarrow> string \<Rightarrow> bool" where
  "lex_less (c # cs) (d # ds) =
     ((of_char c :: nat) < of_char d \<or> (c = d \<and> lex_less cs ds))"
| "lex_less cs ds = False"

definition numeral_less :: "string \<Rightarrow> string \<Rightarrow> bool" where
  "numeral_less a b = (length a < length b \<or> (length a = length b \<and> lex_less a b))"

definition is_array_index :: "string \<Rightarrow> bool" where
  "is_array_index k =
     (k \<noteq> [] \<and> list_all is_digit k \<and> (length k = 1 \<or> hd k \<noteq> CHR ''0'')
      \<and> numeral_less k ''4294967295'')"

fun insert_index :: "string \<Rightarrow> jsval \<Rightarrow> js_record \<Rightarrow> js_record" where
  "insert_index k v [] = [(k, v)]"
| "insert_index k v ((k', v') # rest) =
     (if is_array_index k' \<and> numeral_less k' k then (k', v') # insert_index k v rest
      else (k, v) # (k', v') # rest)"

definition js_set :: "string \<Rightarrow> jsval \<Rightarrow> js_record \<Rightarrow> js_record" where
  "js_set k v obj =
     (if k \<in> set (object_keys obj) then AList.update k v obj
      else if is_array_index k then insert_index k v obj
      else obj @ [(k, v)])"

section \<open>Field mapping service\<close>

record form_field =
  name :: string
  ftype :: string
  description :: string

text \<open>
  Confidences and thresholds are JavaScript numbers. They are modelled by the rationals
  their decimal literals denote, and \<open>>=\<close> compares them exactly.
\<close>

record MappingResult =
  fieldName :: string
  val :: jsval
  confidence :: rat
  source :: string

text \<open>The alias table \<open>commonFieldMappings\<close>, in the order \<open>Object.entries\<close> yields it.\<close>

definition commonFieldMappings :: "(string \<times> string list) list" where
  "commonFieldMappings =
     [(''firstName'', [''first_name'', ''first'', ''fname'', ''givenname'', ''given_name'']),
      (''lastName'', [''last_name'', ''last'', ''lname'', ''surname'', ''family_name'', ''familyname'']),
      (''fullName'', [''full_name'', ''name'', ''fullname'', ''complete_name'', ''completename'']),
      (''dateOfBirth'', [''dob'', ''date_of_birth'', ''birthdate'', ''birth_date'']),
      (''address'', [''street_address'', ''streetaddress'', ''addr'', ''street'', ''residence'']),
      (''addressLine1'', [''address_line_1'', ''address1'', ''addr1'', ''street1'']),
      (''addressLine2'', [''address_line_2'', ''address2'', ''addr2'', ''street2'', ''apt'', ''unit'']),
      (''city'', [''city_name'', ''cityname'', ''town'', ''municipality'']),
      (''state'', [''state_name'', ''statename'', ''province'', ''region'']),
      (''zipCode'', [''zip'', ''zip_code'', ''postal'', ''postal_code'', ''postalcode'']),
      (''phoneNumber'', [''phone'', ''telephone'', ''phone_number'', ''tel'', ''mobile'', ''cell'']),
      (''email'', [''email_address'', ''emailaddress'', ''mail'', ''e-mail'']),
      (''ssn'', [''social_security'', ''social_security_number'', ''socialsecurity'', ''social'']),
      (''driversLicense'', [''drivers_license'', ''dl_number'', ''license_number'', ''licensenumber'']),
      (''gender'', [''sex'', ''gender_identity'']),
      (''birthPlace'', [''place_of_birth'', ''birth_place'', ''birthcity'', ''birth_city''])]"

text \<open>
  The test \<open>formVariations.some(v => s.includes(v)) || s.includes(donorKey.toLowerCase())\<close>,
  used on the lower-cased field name and on the lower-cased donor field.
\<close>

definition matches_entry :: "string \<Rightarrow> string \<Rightarrow> string list \<Rightarrow> bool" where
  "matches_entry s donorKey formVariations =
     (list_ex (\<lambda>v. js_includes s v) formVariations \<or> js_includes s (toLowerCase donorKey))"

text \<open>
  The first alias loop (``from donor data keys to form fields''): the first table entry whose
  canonical key is defined in the donor data and which the field name matches gives
  confidence 0.9.
\<close>

fun alias_lookup ::
  "(string \<times> string list) list \<Rightarrow> js_record \<Rightarrow> string \<Rightarrow> string \<Rightarrow> MappingResult option" where
  "alias_lookup [] donorData fname lcFieldName = None"
| "alias_lookup ((donorKey, formVariations) # rest) donorData fname lcFieldName =
     (if js_get donorData donorKey \<noteq> JUndefined \<and> matches_entry lcFieldName donorKey formVariations
      then Some \<lparr>fieldName = fname, val = js_get donorData donorKey,
                 confidence = 9 / 10, source = donorKey\<rparr>
      else alias_lookup rest donorData fname lcFieldName)"

text \<open>
  The second alias loop (``from form fields to donor data''): for each table entry, the first
  donor field that matches the entry, when the field name matches the same entry, gives
  confidence 0.85.
\<close>

fun reverse_inner ::
  "string \<Rightarrow> string list \<Rightarrow> string list \<Rightarrow> js_record \<Rightarrow> string \<Rightarrow> string \<Rightarrow> MappingResult option" where
  "reverse_inner donorKey formVariations [] donorData fname lcFieldName = None"
| "reverse_inner donorKey formVariations (donorField # ks) donorData fname lcFieldName =
     (if matches_entry (toLowerCase donorField) donorKey formVariations
         \<and> matches_entry lcFieldName donorKey formVariations
      then Some \<lparr>fieldName = fname, val = js_get donorData donorField,
                 confidence = 17 / 20, source = donorField\<rparr>
      else reverse_inner donorKey formVariations ks donorData fname lcFieldName)"

fun reverse_lookup ::
  "(string \<times> string list) list \<Rightarrow> js_record \<Rightarrow> string \<Rightarrow> string \<Rightarrow> MappingResult option" where
  "reverse_lookup [] donorData fname lcFieldName = None"
| "reverse_lookup ((donorKey, formVariations) # rest) donorData fname lcFieldName =
     (case reverse_inner donorKey formVariations (object_keys donorData) donorData
             fname lcFieldName of
        Some r \<Rightarrow> Some r
      | None \<Rightarrow> reverse_lookup rest donorData fname lcFieldName)"

text \<open>
  The last loop runs over the donor entries once; for each entry it tests the description
  first and the four-character overlap second, and stops at the first entry that passes
  either test.
\<close>

definition overlap4 :: "string \<Rightarrow> string \<Rightarrow> bool" where
  "overlap4 lcFieldName donorKeyLower =
     (length lcFieldName \<ge> 4 \<and> length donorKeyLower \<ge> 4 \<and>
      (js_includes lcFieldName (substring04 donorKeyLower) \<or>
       js_includes donorKeyLower (substring04 lcFieldName)))"

fun fuzzy_lookup ::
  "js_record \<Rightarrow> string \<Rightarrow> string \<Rightarrow> string \<Rightarrow> MappingResult option" where
  "fuzzy_lookup [] fname fieldDesc lcFieldName = None"
| "fuzzy_lookup ((donorKey, v) # rest) fname fieldDesc lcFieldName =
     (if js_includes fieldDesc (toLowerCase donorKey)
      then Some \<lparr>fieldName = fname, val = v, confidence = 8 / 10, source = donorKey\<rparr>
      else if overlap4 lcFieldName (toLowerCase donorKey)
      then Some \<lparr>fieldName = fname, val = v, confidence = 7 / 10, source = donorKey\<rparr>
      else fuzzy_lookup rest fname fieldDesc lcFieldName)"

text \<open>
  One iteration of the loop over the form fields: what, if anything, is pushed onto
  \<open>results\<close> for this field. The alias table is a parameter, so that statements about all
  alias tables can be made; \<open>mapFields\<close> below fixes it to \<open>commonFieldMappings\<close>.
\<close>

definition map_one ::
  "(string \<times> string list) list \<Rightarrow> js_record \<Rightarrow> form_field \<Rightarrow> MappingResult option" where
  "map_one tbl donorData formField =
     (let fname = name formField;
          fieldDesc = toLowerCase (description formField);
          lcFieldName = toLowerCase fname
      in if js_get donorData fname \<noteq> JUndefined
         then Some \<lparr>fieldName = fname, val = js_get donorData fname,
                    confidence = 1, source = fname\<rparr>
         else case alias_lookup tbl donorData fname lcFieldName of
                Some r \<Rightarrow> Some r
              | None \<Rightarrow>
                 (case reverse_lookup tbl donorData fname lcFieldName of
                    Some r \<Rightarrow> Some r
                  | None \<Rightarrow> fuzzy_lookup donorData fname fieldDesc lcFieldName))"

fun collect_results ::
  "(string \<times> string list) list \<Rightarrow> js_record \<Rightarrow> form_field list \<Rightarrow> MappingResult list" where
  "collect_results tbl donorData [] = []"
| "collect_results tbl donorData (formField # rest) =
     (case map_one tbl donorData formField of
        Some r \<Rightarrow> r # collect_results tbl donorData rest
      | None \<Rightarrow> collect_results tbl donorData rest)"

definition mapFields_with ::
  "(string \<times> string list) list \<Rightarrow> form_field list \<Rightarrow> js_record \<Rightarrow> rat \<Rightarrow> MappingResult list" where
  "mapFields_with tbl formFields donorData confidenceThreshold =
     filter (\<lambda>result. confidence result \<ge> confidenceThreshold)
            (collect_results tbl donorData formFields)"

definition mapFields :: "form_field list \<Rightarrow> js_record \<Rightarrow> rat \<Rightarrow> MappingResult list" where
  "mapFields formFields donorData confidenceThreshold =
     mapFields_with commonFieldMappings formFields donorData confidenceThreshold"

subsection \<open>The \<open>/map-fields\<close> handler\<close>

record MappingRequest =
  req_formFields :: "form_field list option"
  req_donorData :: "js_record option"
  req_confidence :: "rat option"

text \<open>The body of a successful response (its \<open>status\<close> is always \<open>'success'\<close>).\<close>

record MappingResponse =
  mappedFields :: "MappingResult list"
  confidenceThreshold :: rat
  unmappedFormFields :: "form_field list"
  unmappedDonorFields :: "string list"

datatype http_response = Status400 string | Status200 MappingResponse

text \<open>The threshold the constructor stores in \<open>this.confidenceThreshold\<close>.\<close>

definition default_confidenceThreshold :: rat where
  "default_confidenceThreshold = 7 / 10"

text \<open>
  \<open>request.confidence || this.confidenceThreshold\<close>: a missing number and the number 0 are
  both falsy.
\<close>

definition confidence_or_default :: "rat option \<Rightarrow> rat \<Rightarrow> rat" where
  "confidence_or_default c dflt = (case c of None \<Rightarrow> dflt | Some x \<Rightarrow> if x = 0 then dflt else x)"

definition mapFieldsHandler :: "MappingRequest \<Rightarrow> http_response" where
  "mapFieldsHandler request =
     (case req_formFields request of
        None \<Rightarrow> Status400 ''Form fields and donor data are required''
      | Some fs \<Rightarrow>
         (case req_donorData request of
            None \<Rightarrow> Status400 ''Form fields and donor data are required''
          | Some d \<Rightarrow>
             (let thr = confidence_or_default (req_confidence request) default_confidenceThreshold;
                  mapped = mapFields fs d thr
              in Status200
                   \<lparr>mappedFields = mapped,
                    confidenceThreshold = thr,
                    unmappedFormFields =
                      filter (\<lambda>field. \<not> list_ex (\<lambda>m. fieldName m = name field) mapped) fs,
                    unmappedDonorFields =
                      filter (\<lambda>key. \<not> list_ex (\<lambda>m. source m = key) mapped) (object_keys d)\<rparr>)))"

section \<open>Workflow results, adapters and the run cache\<close>

datatype wstatus = Success | Failure

record 'd WorkflowResult =
  status :: wstatus
  message :: string
  data :: "'d option"
  error :: "string option"

datatype provider = Perplexity | OpenAI

datatype download_data = DownloadData (path: string)

text \<open>
  The payloads of the stage results. The private stage methods copy them from the
  adapters' responses without looking at them, so every member but the downloaded file's
  path (a string by the downloader's contract) may be missing, that is \<open>undefined\<close>.
\<close>

datatype fields_data =
  FieldsData (data_fields: "form_field list option") (fields_provider: "string option")

datatype extract_data =
  ExtractData (extractedData: "js_record option") (extract_provider: "string option")

datatype mapping_data =
  MappingData (md_mappedFields: "MappingResult list option")
              (md_unmappedFormFields: "form_field list option")
              (md_unmappedDonorFields: "string list option")
              (md_confidenceThreshold: "rat option")

datatype filled_form = FilledForm (ff_path: "string option") (ff_filename: "string option")

datatype filled_data = FilledData (filledForm: "filled_form option")

text \<open>
  A call of one of the orchestrator's private stage methods either throws or returns a
  \<open>WorkflowResult\<close>. What is thrown is an \<open>Error\<close> with a message, or some other value;
  \<open>thrown_message\<close> is \<open>error instanceof Error ? error.message : 'Unknown error'\<close>.
\<close>

datatype thrown = ErrorObject string | NonError

definition thrown_message :: "thrown \<Rightarrow> string" where
  "thrown_message e = (case e of ErrorObject m \<Rightarrow> m | NonError \<Rightarrow> ''Unknown error'')"

datatype 'a outcome = Throws thrown | Returns 'a

text \<open>
  Reading the property \<open>prop\<close> of \<open>undefined\<close> throws a \<open>TypeError\<close>, an \<open>Error\<close> whose
  message names the property.
\<close>

definition type_error :: "string \<Rightarrow> thrown" where
  "type_error prop =
     ErrorObject (''Cannot read properties of undefined (reading '' @ [CHR 0x27] @ prop
                  @ [CHR 0x27] @ '')'')"

text \<open>Decimal rendering of a number inside a template string.\<close>

fun string_of_nat :: "nat \<Rightarrow> string" where
  "string_of_nat n =
     (if n < 10 then [char_of (48 + n)]
      else string_of_nat (n div 10) @ [char_of (48 + n mod 10)])"

declare string_of_nat.simps [simp del]

text \<open>\<open>path.basename\<close> for POSIX paths: trailing slashes are dropped, the last segment is kept.\<close>

definition basename :: "string \<Rightarrow> string" where
  "basename p =
     rev (takeWhile (\<lambda>c. c \<noteq> CHR ''/'') (dropWhile (\<lambda>c. c = CHR ''/'') (rev p)))"

text \<open>
  \<open>{...a, ...b}\<close>: a fresh object that receives the properties of \<open>a\<close> and then those of
  \<open>b\<close>, each by an assignment. The copy of \<open>a\<close> is \<open>a\<close> itself, a record being the list of
  its properties in enumeration order.
\<close>

definition object_spread :: "js_record \<Rightarrow> js_record \<Rightarrow> js_record" where
  "object_spread a b = foldl (\<lambda>acc (k, v). js_set k v acc) a b"

datatype cache_value =
    CachedDownload "download_data WorkflowResult"
  | CachedFields "fields_data WorkflowResult"
  | CachedDonorData js_record
  | CachedMapping "mapping_data WorkflowResult"
  | CachedFilledForm "filled_data WorkflowResult"

type_synonym workflow_cache = "string \<rightharpoonup> cache_value"

section \<open>Form-filling orchestrator\<close>

record FormFillingOptions =
  analysisProvider :: "provider option"
  confidenceThreshold_option :: "rat option"
  skipEmptyFields :: "bool option"
  allowPartial :: "bool option"
  skipDownloadOnError :: "bool option"

text \<open>
  The five private stage methods. Each performs I/O, so each is a parameter of the run:
  a function from the call's arguments to what the call does.
\<close>

record adapters =
  downloadPdf :: "string \<Rightarrow> download_data WorkflowResult outcome"
  extractFormFields :: "string \<Rightarrow> provider option \<Rightarrow> fields_data WorkflowResult outcome"
  extractDonorData :: "string \<Rightarrow> provider option \<Rightarrow> extract_data WorkflowResult outcome"
  mapFieldsToData ::
    "form_field list option \<Rightarrow> js_record \<Rightarrow> rat option \<Rightarrow> mapping_data WorkflowResult outcome"
  fillForm :: "string \<Rightarrow> js_record \<Rightarrow> filled_data WorkflowResult outcome"

record success_summary =
  originalFormPath :: string
  filledFormPath :: "string option"
  filledFormFilename :: "string option"
  extractedFields :: nat
  mappedFieldsCount :: nat
  unmappedFieldsCount :: nat
  donorDataFields :: nat

text \<open>
  The \<open>data\<close> payload of what the run returns, one constructor for each object literal in
  the source. A \<open>formPath\<close> of \<open>None\<close> is \<open>null\<close>. The \<open>timestamp\<close> of the success payload
  is left out.
\<close>

datatype run_data =
    DownloadPayload download_data
  | FormPathData "string option"
  | FormPathFieldsData "string option" "form_field list option"
  | MappingThrewData "string option" "form_field list option" "js_record option"
  | MappingFailedData "mapping_data option" "string option"
  | FillThrewData "string option" "MappingResult list"
  | FillFailedData "filled_data option" "string option" "MappingResult list"
  | SuccessData success_summary

text \<open>\<open>options?.skipDownloadOnError ?? true\<close> and \<open>options?.analysisProvider\<close>.\<close>

definition skipDownloadOnError_or_true :: "FormFillingOptions option \<Rightarrow> bool" where
  "skipDownloadOnError_or_true options =
     (case options of
        None \<Rightarrow> True
      | Some opts \<Rightarrow> (case skipDownloadOnError opts of None \<Rightarrow> True | Some b \<Rightarrow> b))"

definition options_analysisProvider :: "FormFillingOptions option \<Rightarrow> provider option" where
  "options_analysisProvider options =
     (case options of None \<Rightarrow> None | Some opts \<Rightarrow> analysisProvider opts)"

definition options_confidenceThreshold :: "FormFillingOptions option \<Rightarrow> rat option" where
  "options_confidenceThreshold options =
     (case options of None \<Rightarrow> None | Some opts \<Rightarrow> confidenceThreshold_option opts)"

text \<open>\<open>skipDownloadOnError ? null : formPath\<close>.\<close>

definition exposed_path :: "bool \<Rightarrow> string \<Rightarrow> string option" where
  "exposed_path skip formPath = (if skip then None else Some formPath)"

text \<open>The outermost \<open>catch\<close> of the run.\<close>

definition workflow_error :: "thrown \<Rightarrow> run_data WorkflowResult" where
  "workflow_error e =
     \<lparr>status = Failure, message = ''Form filling workflow failed'', data = None,
      error = Some (thrown_message e)\<rparr>"

text \<open>
  Step 5 and the final return. \<open>formData\<close> is built by assigning \<open>data[field.fieldName] =
  field.value\<close> for each mapped field in turn. The filled-form result is cached as soon as
  \<open>fillForm\<close> has returned a success; the object returned after that reads
  \<open>formFillingResult.data.filledForm.path\<close>, \<open>formFields.length\<close> and
  \<open>fieldMappingResult.data.unmappedFormFields.length\<close>, in this order, and each of these
  reads throws when what it reads from is missing.
\<close>

definition formData_of :: "MappingResult list \<Rightarrow> js_record" where
  "formData_of mapped = foldl (\<lambda>d field. js_set (fieldName field) (val field) d) [] mapped"

definition success_return ::
  "string \<Rightarrow> form_field list option \<Rightarrow> js_record \<Rightarrow> mapping_data \<Rightarrow> MappingResult list \<Rightarrow>
   filled_data WorkflowResult \<Rightarrow> run_data WorkflowResult" where
  "success_return formPath formFields donorData mdata mapped formFillingResult =
     (case data formFillingResult of
        None \<Rightarrow> workflow_error (type_error ''filledForm'')
      | Some fd \<Rightarrow>
         (case filledForm fd of
            None \<Rightarrow> workflow_error (type_error ''path'')
          | Some ff \<Rightarrow>
             (case formFields of
                None \<Rightarrow> workflow_error (type_error ''length'')
              | Some fs \<Rightarrow>
                 (case md_unmappedFormFields mdata of
                    None \<Rightarrow> workflow_error (type_error ''length'')
                  | Some unmapped \<Rightarrow>
                      \<lparr>status = Success,
                       message = ''Form filling workflow completed successfully'',
                       data = Some (SuccessData
                         \<lparr>originalFormPath = formPath,
                          filledFormPath = ff_path ff,
                          filledFormFilename = ff_filename ff,
                          extractedFields = length fs,
                          mappedFieldsCount = length mapped,
                          unmappedFieldsCount = length unmapped,
                          donorDataFields = length (object_keys donorData)\<rparr>),
                       error = None\<rparr>))))"

definition fill_stage ::
  "adapters \<Rightarrow> string \<Rightarrow> workflow_cache \<Rightarrow> bool \<Rightarrow> string \<Rightarrow> form_field list option \<Rightarrow> js_record \<Rightarrow>
   mapping_data WorkflowResult \<Rightarrow> mapping_data \<Rightarrow> MappingResult list \<Rightarrow>
   run_data WorkflowResult \<times> workflow_cache" where
  "fill_stage env workflowId cache skip formPath formFields donorData fieldMappingResult mdata mapped =
     (let formData = formData_of mapped;
          cache1 = cache(workflowId @ ''-mapping'' \<mapsto> CachedMapping fieldMappingResult)
      in case fillForm env formPath formData of
           Throws e \<Rightarrow>
             (\<lparr>status = Failure, message = ''Form filling failed'',
               data = Some (FillThrewData (exposed_path skip formPath) mapped),
               error = Some (thrown_message e)\<rparr>, cache1)
         | Returns formFillingResult \<Rightarrow>
             if status formFillingResult = Failure
             then (\<lparr>status = status formFillingResult, message = message formFillingResult,
                    data = Some (FillFailedData (data formFillingResult)
                                   (exposed_path skip formPath) mapped),
                    error = error formFillingResult\<rparr>, cache1)
             else (success_return formPath formFields donorData mdata mapped formFillingResult,
                   cache1(workflowId @ ''-filled-form'' \<mapsto> CachedFilledForm formFillingResult)))"

text \<open>
  Step 4. After a successful mapping the run reads \<open>fieldMappingResult.data.mappedFields\<close>
  and calls \<open>reduce\<close> on it; both reads throw when what they read from is missing.
\<close>

definition mapping_stage ::
  "adapters \<Rightarrow> string \<Rightarrow> workflow_cache \<Rightarrow> FormFillingOptions option \<Rightarrow> string \<Rightarrow>
   form_field list option \<Rightarrow> js_record \<Rightarrow> run_data WorkflowResult \<times> workflow_cache" where
  "mapping_stage env workflowId cache options formPath formFields donorData =
     (let skip = skipDownloadOnError_or_true options
      in case mapFieldsToData env formFields donorData (options_confidenceThreshold options) of
           Throws e \<Rightarrow>
             (\<lparr>status = Failure, message = ''Field mapping failed'',
               data = Some (MappingThrewData (exposed_path skip formPath) formFields
                              (if length (object_keys donorData) > 0 then Some donorData else None)),
               error = Some (thrown_message e)\<rparr>, cache)
         | Returns fieldMappingResult \<Rightarrow>
             if status fieldMappingResult = Failure
             then (\<lparr>status = status fieldMappingResult, message = message fieldMappingResult,
                    data = Some (MappingFailedData (data fieldMappingResult)
                                   (exposed_path skip formPath)),
                    error = error fieldMappingResult\<rparr>, cache)
             else case data fieldMappingResult of
                    None \<Rightarrow> (workflow_error (type_error ''mappedFields''), cache)
                  | Some mdata \<Rightarrow>
                     (case md_mappedFields mdata of
                        None \<Rightarrow> (workflow_error (type_error ''reduce''), cache)
                      | Some mapped \<Rightarrow>
                          fill_stage env workflowId cache skip formPath formFields donorData
                            fieldMappingResult mdata mapped))"

text \<open>
  Step 3. Each donor document is extracted on its own; a call that throws is turned into a
  failure result, so \<open>Promise.all\<close> always yields one result per document.
\<close>

definition extract_one ::
  "adapters \<Rightarrow> FormFillingOptions option \<Rightarrow> string \<Rightarrow> extract_data WorkflowResult" where
  "extract_one env options docPath =
     (case extractDonorData env docPath (options_analysisProvider options) of
        Returns r \<Rightarrow> r
      | Throws e \<Rightarrow>
          \<lparr>status = Failure,
           message = ''Failed to extract data from '' @ basename docPath,
           data = None,
           error = Some (thrown_message e)\<rparr>)"

text \<open>\<open>donorDataResults.every(result => result.status === 'failure')\<close>.\<close>

definition allDonorExtrationsFailed :: "extract_data WorkflowResult list \<Rightarrow> bool" where
  "allDonorExtrationsFailed donorDataResults = list_all (\<lambda>result. status result = Failure) donorDataResults"

text \<open>
  The \<open>reduce\<close> that combines the donor data, started at \<open>{}\<close>. A result that is a success
  with a truthy \<open>extractedData\<close> is spread over what has been combined so far; every other
  result is skipped. Reading \<open>result.data.extractedData\<close> of a success without \<open>data\<close>
  throws.
\<close>

fun combineDonorData ::
  "js_record \<Rightarrow> extract_data WorkflowResult list \<Rightarrow> thrown + js_record" where
  "combineDonorData combined [] = Inr combined"
| "combineDonorData combined (result # rest) =
     (if status result = Success
      then (case data result of
              None \<Rightarrow> Inl (type_error ''extractedData'')
            | Some d \<Rightarrow>
                (case extractedData d of
                   Some ed \<Rightarrow> combineDonorData (object_spread combined ed) rest
                 | None \<Rightarrow> combineDonorData combined rest))
      else combineDonorData combined rest)"

definition aggregate_stage ::
  "adapters \<Rightarrow> string \<Rightarrow> workflow_cache \<Rightarrow> FormFillingOptions option \<Rightarrow> string \<Rightarrow>
   form_field list option \<Rightarrow> string list \<Rightarrow> extract_data WorkflowResult list \<Rightarrow>
   run_data WorkflowResult \<times> workflow_cache" where
  "aggregate_stage env workflowId cache options formPath formFields donorDocumentPaths donorDataResults =
     (if allDonorExtrationsFailed donorDataResults \<and> length donorDocumentPaths > 0
      then (\<lparr>status = Failure, message = ''All donor data extractions failed'',
             data = Some (FormPathFieldsData
                            (exposed_path (skipDownloadOnError_or_true options) formPath) formFields),
             error = Some ''Failed to extract data from any donor documents''\<rparr>, cache)
      else case combineDonorData [] donorDataResults of
             Inl e \<Rightarrow> (workflow_error e, cache)
           | Inr donorData \<Rightarrow>
               mapping_stage env workflowId
                 (cache(workflowId @ ''-donor-data'' \<mapsto> CachedDonorData donorData))
                 options formPath formFields donorData)"

definition donor_stage ::
  "adapters \<Rightarrow> string \<Rightarrow> workflow_cache \<Rightarrow> FormFillingOptions option \<Rightarrow> string \<Rightarrow>
   form_field list option \<Rightarrow> string list \<Rightarrow> run_data WorkflowResult \<times> workflow_cache" where
  "donor_stage env workflowId cache options formPath formFields donorDocumentPaths =
     aggregate_stage env workflowId cache options formPath formFields donorDocumentPaths
       (map (extract_one env options) donorDocumentPaths)"

text \<open>Step 2.\<close>

definition fields_stage ::
  "adapters \<Rightarrow> string \<Rightarrow> workflow_cache \<Rightarrow> FormFillingOptions option \<Rightarrow> string \<Rightarrow>
   string list \<Rightarrow> run_data WorkflowResult \<times> workflow_cache" where
  "fields_stage env workflowId cache options formPath donorDocumentPaths =
     (let skip = skipDownloadOnError_or_true options
      in case extractFormFields env formPath (options_analysisProvider options) of
           Throws e \<Rightarrow>
             (\<lparr>status = Failure, message = ''Field extraction failed'',
               data = Some (FormPathData (exposed_path skip formPath)),
               error = Some (thrown_message e)\<rparr>, cache)
         | Returns fieldExtractionResult \<Rightarrow>
             if status fieldExtractionResult = Failure
             then (\<lparr>status = status fieldExtractionResult,
                    message = message fieldExtractionResult,
                    data = Some (FormPathData (exposed_path skip formPath)),
                    error = error fieldExtractionResult\<rparr>, cache)
             else case data fieldExtractionResult of
                    None \<Rightarrow> (workflow_error (type_error ''fields''), cache)
                  | Some fd \<Rightarrow>
                      donor_stage env workflowId
                        (cache(workflowId @ ''-fields'' \<mapsto> CachedFields fieldExtractionResult))
                        options formPath (data_fields fd) donorDocumentPaths)"

text \<open>
  The run. \<open>now\<close> is the value of \<open>Date.now()\<close> at the start; the run takes the cache and
  returns it with the entries it has set.
\<close>

definition form_workflowId :: "nat \<Rightarrow> string" where
  "form_workflowId now = ''form-filling-'' @ string_of_nat now"

definition runFormFillingWorkflow ::
  "adapters \<Rightarrow> nat \<Rightarrow> workflow_cache \<Rightarrow> string \<Rightarrow> string list \<Rightarrow> FormFillingOptions option \<Rightarrow>
   run_data WorkflowResult \<times> workflow_cache" where
  "runFormFillingWorkflow env now cache pdfFormUrl donorDocumentPaths options =
     (let workflowId = form_workflowId now
      in case downloadPdf env pdfFormUrl of
           Throws e \<Rightarrow>
             (\<lparr>status = Failure, message = ''Form download failed'', data = None,
               error = Some (thrown_message e)\<rparr>, cache)
         | Returns downloadResult \<Rightarrow>
             if status downloadResult = Failure
             then (\<lparr>status = status downloadResult, message = message downloadResult,
                    data = map_option DownloadPayload (data downloadResult),
                    error = error downloadResult\<rparr>, cache)
             else case data downloadResult of
                    None \<Rightarrow> (workflow_error (type_error ''path''), cache)
                  | Some dd \<Rightarrow>
                      fields_stage env workflowId
                        (cache(workflowId @ ''-download'' \<mapsto> CachedDownload downloadResult))
                        options (path dd) donorDocumentPaths)"



section \<open>PDF-analysis orchestrator\<close>

record AnalysisOptions =
  pa_analysisProvider :: "provider option"
  pa_filename :: "string option"
  pa_skipDownloadOnError :: "bool option"

record analysis_adapters =
  pa_downloadPdf :: "string \<Rightarrow> string option \<Rightarrow> download_data WorkflowResult outcome"
  pa_extractFormFields :: "string \<Rightarrow> provider option \<Rightarrow> fields_data WorkflowResult outcome"

datatype analysis_data =
    AnalysisDownloadPayload download_data
  | PdfPathData "string option"
  | AnalysisSuccessData string "form_field list option" "string option"

definition analysis_workflowId :: "nat \<Rightarrow> string" where
  "analysis_workflowId now = ''workflow-'' @ string_of_nat now"

definition runPdfAnalysisWorkflow ::
  "analysis_adapters \<Rightarrow> nat \<Rightarrow> workflow_cache \<Rightarrow> string \<Rightarrow> AnalysisOptions option \<Rightarrow>
   analysis_data WorkflowResult \<times> workflow_cache" where
  "runPdfAnalysisWorkflow env now cache pdfUrl options =
     (let workflowId = analysis_workflowId now;
          skip = (case options of
                    None \<Rightarrow> True
                  | Some opts \<Rightarrow> (case pa_skipDownloadOnError opts of None \<Rightarrow> True | Some b \<Rightarrow> b));
          prov = (case options of None \<Rightarrow> None | Some opts \<Rightarrow> pa_analysisProvider opts);
          fname = (case options of None \<Rightarrow> None | Some opts \<Rightarrow> pa_filename opts)
      in case pa_downloadPdf env pdfUrl fname of
           Throws e \<Rightarrow>
             (\<lparr>status = Failure, message = ''PDF download failed'', data = None,
               error = Some (thrown_message e)\<rparr>, cache)
         | Returns downloadResult \<Rightarrow>
             if status downloadResult = Failure
             then (\<lparr>status = status downloadResult, message = message downloadResult,
                    data = map_option AnalysisDownloadPayload (data downloadResult),
                    error = error downloadResult\<rparr>, cache)
             else case data downloadResult of
                    None \<Rightarrow>
                      (\<lparr>status = Failure, message = ''PDF analysis workflow failed'', data = None,
                        error = Some (thrown_message (type_error ''path''))\<rparr>, cache)
                  | Some dd \<Rightarrow>
                     (let pdfPath = path dd;
                          cache1 = cache(workflowId @ ''-download'' \<mapsto> CachedDownload downloadResult)
                      in case pa_extractFormFields env pdfPath prov of
                           Throws e \<Rightarrow>
                             (\<lparr>status = Failure, message = ''Field extraction failed'',
                               data = Some (PdfPathData (exposed_path skip pdfPath)),
                               error = Some (thrown_message e)\<rparr>, cache1)
                         | Returns extractionResult \<Rightarrow>
                             if status extractionResult = Failure
                             then (\<lparr>status = status extractionResult,
                                    message = message extractionResult,
                                    data = Some (PdfPathData (exposed_path skip pdfPath)),
                                    error = error extractionResult\<rparr>, cache1)
                             else
                               (let cache2 = cache1(workflowId @ ''-extraction'' \<mapsto>
                                                      CachedFields extractionResult)
                                in case data extractionResult of
                                     None \<Rightarrow>
                                       (\<lparr>status = Failure,
                                         message = ''PDF analysis workflow failed'', data = None,
                                         error = Some (thrown_message (type_error ''fields''))\<rparr>, cache2)
                                   | Some fd \<Rightarrow>
                                       (\<lparr>status = Success,
                                         message = ''PDF analysis workflow completed successfully'',
                                         data = Some (AnalysisSuccessData pdfPath (data_fields fd)
                                                        (fields_provider fd)),
                                         error = None\<rparr>, cache2))))"

record analysis_aggregate =
  agg_pdf_download :: cache_value
  agg_extraction :: cache_value

definition analysis_getWorkflowResult :: "workflow_cache \<Rightarrow> string \<Rightarrow> analysis_aggregate option" where
  "analysis_getWorkflowResult cache workflowId =
     (case cache (workflowId @ ''-download'') of
        None \<Rightarrow> None
      | Some downloadResult \<Rightarrow>
         (case cache (workflowId @ ''-extraction'') of
            None \<Rightarrow> None
          | Some extractionResult \<Rightarrow>
              Some \<lparr>agg_pdf_download = downloadResult, agg_extraction = extractionResult\<rparr>))"

definition analysis_clearWorkflowCache :: "workflow_cache \<Rightarrow> string \<Rightarrow> workflow_cache" where
  "analysis_clearWorkflowCache cache workflowId =
     (cache(workflowId @ ''-download'' := None))(workflowId @ ''-extraction'' := None)"

section \<open>Orchestration service\<close>

record workflow_entry =
  entry_status :: string
  startTime :: nat
  completedTime :: "nat option"

record service_state =
  activeWorkflows :: "string \<rightharpoonup> workflow_entry"
  orchestrator_cache :: workflow_cache

definition initial_service :: service_state where
  "initial_service = \<lparr>activeWorkflows = Map.empty, orchestrator_cache = Map.empty\<rparr>"

definition status_string :: "wstatus \<Rightarrow> string" where
  "status_string st = (case st of Success \<Rightarrow> ''success'' | Failure \<Rightarrow> ''failure'')"

definition service_workflowId :: "nat \<Rightarrow> string" where
  "service_workflowId now = ''pdf-analysis-'' @ string_of_nat now"

datatype start_response = StartBadRequest string | StartAccepted string

text \<open>
  \<open>POST /workflow/pdf-analysis\<close>. The handler registers the run and returns; the run itself
  (\<open>runWorkflowAsync\<close>) is a later step of its own. \<open>now\<close> is \<open>Date.now()\<close>, \<open>started\<close> the
  \<open>new Date()\<close> stored as start time. A missing or empty \<open>pdfUrl\<close> is falsy.
\<close>

definition startPdfAnalysisWorkflow ::
  "nat \<Rightarrow> nat \<Rightarrow> string option \<Rightarrow> service_state \<Rightarrow> start_response \<times> service_state" where
  "startPdfAnalysisWorkflow now started pdfUrl s =
     (if pdfUrl = None \<or> pdfUrl = Some []
      then (StartBadRequest ''PDF URL is required'', s)
      else let workflowId = service_workflowId now
           in (StartAccepted workflowId,
               s\<lparr>activeWorkflows := (activeWorkflows s)(workflowId \<mapsto>
                    \<lparr>entry_status = ''running'', startTime = started, completedTime = None\<rparr>)\<rparr>))"

text \<open>
  The run started by the handler: \<open>now\<close> is the \<open>Date.now()\<close> the orchestrator reads,
  \<open>finished\<close> the \<open>new Date()\<close> when the run has returned. The orchestrator catches
  everything itself, so the \<open>catch\<close> branch here is never taken.
\<close>

definition runWorkflowAsync ::
  "analysis_adapters \<Rightarrow> nat \<Rightarrow> nat \<Rightarrow> string \<Rightarrow> string \<Rightarrow> provider option \<Rightarrow> string option \<Rightarrow>
   service_state \<Rightarrow> service_state" where
  "runWorkflowAsync env now finished workflowId pdfUrl prov fname s =
     (case runPdfAnalysisWorkflow env now (orchestrator_cache s) pdfUrl
             (Some \<lparr>pa_analysisProvider = prov, pa_filename = fname,
                    pa_skipDownloadOnError = None\<rparr>) of
        (result, cache') \<Rightarrow>
          \<lparr>activeWorkflows = (activeWorkflows s)(workflowId \<mapsto>
             \<lparr>entry_status = status_string (status result),
              startTime = (case activeWorkflows s workflowId of
                             Some e \<Rightarrow> startTime e | None \<Rightarrow> finished),
              completedTime = Some finished\<rparr>),
           orchestrator_cache = cache'\<rparr>)"

record finished_body =
  fb_workflowId :: string
  fb_status :: string
  fb_startTime :: nat
  fb_completedTime :: "nat option"
  fb_result :: "analysis_aggregate option"

datatype status_response =
    StatusBadRequest string
  | StatusNotFound string
  | StatusFinished finished_body
  | StatusRunning string string nat string

text \<open>\<open>GET /workflow/:workflowId\<close>.\<close>

definition getWorkflowStatus :: "service_state \<Rightarrow> string \<Rightarrow> status_response" where
  "getWorkflowStatus s workflowId =
     (if workflowId = [] then StatusBadRequest ''Workflow ID is required''
      else case activeWorkflows s workflowId of
             None \<Rightarrow> StatusNotFound ''Workflow not found''
           | Some workflowStatus \<Rightarrow>
               if entry_status workflowStatus \<noteq> ''running''
               then StatusFinished
                      \<lparr>fb_workflowId = workflowId,
                       fb_status = entry_status workflowStatus,
                       fb_startTime = startTime workflowStatus,
                       fb_completedTime = completedTime workflowStatus,
                       fb_result = analysis_getWorkflowResult (orchestrator_cache s) workflowId\<rparr>
               else StatusRunning workflowId (entry_status workflowStatus)
                      (startTime workflowStatus) ''Workflow is still running'')"

section \<open>Auxiliary notions for the statements\<close>

text \<open>
  The two shapes the private stage methods give their results: a success carries a \<open>data\<close>
  payload and no \<open>error\<close>, a failure carries an \<open>error\<close> and no \<open>data\<close>.
\<close>

definition success_result :: "string \<Rightarrow> 'd \<Rightarrow> 'd WorkflowResult" where
  "success_result msg d = \<lparr>status = Success, message = msg, data = Some d, error = None\<rparr>"

definition failure_result :: "string \<Rightarrow> string \<Rightarrow> 'd WorkflowResult" where
  "failure_result msg err = \<lparr>status = Failure, message = msg, data = None, error = Some err\<rparr>"

text \<open>
  The key/value maps of the successful extractions, in document order. A success whose
  \<open>extractedData\<close> is missing contributes no map.
\<close>

fun successful_maps :: "extract_data WorkflowResult list \<Rightarrow> js_record list" where
  "successful_maps [] = []"
| "successful_maps (result # rest) =
     (if status result = Success
      then (case data result of
              Some (ExtractData (Some ed) p) \<Rightarrow> ed # successful_maps rest
            | _ \<Rightarrow> successful_maps rest)
      else successful_maps rest)"

text \<open>The union of key/value maps in which a later map overrides an earlier one.\<close>

definition union_of_maps :: "js_record list \<Rightarrow> (string \<rightharpoonup> jsval)" where
  "union_of_maps ms = foldl (\<lambda>acc m. acc ++ map_of m) Map.empty ms"

text \<open>
  When the alias loops of the mapper find something: the first loop, when some table entry
  has its canonical key defined in the donor data and is matched by the field name; the
  second, when some table entry is matched by the field name and by some donor key.
\<close>

definition alias_tier_matches ::
  "(string \<times> string list) list \<Rightarrow> js_record \<Rightarrow> string \<Rightarrow> bool" where
  "alias_tier_matches tbl donorData lcFieldName =
     list_ex (\<lambda>(donorKey, formVariations).
                js_get donorData donorKey \<noteq> JUndefined \<and>
                matches_entry lcFieldName donorKey formVariations) tbl"

definition reverse_tier_matches ::
  "(string \<times> string list) list \<Rightarrow> js_record \<Rightarrow> string \<Rightarrow> bool" where
  "reverse_tier_matches tbl donorData lcFieldName =
     list_ex (\<lambda>(donorKey, formVariations).
                matches_entry lcFieldName donorKey formVariations \<and>
                list_ex (\<lambda>donorField. matches_entry (toLowerCase donorField) donorKey formVariations)
                        (object_keys donorData)) tbl"






section \<open>Properties of the field mapper\<close>

lemma alias_lookup_Some:
  "alias_lookup tbl d fn lc = Some r \<Longrightarrow> fieldName r = fn \<and> confidence r = 9 / 10"
  by (induction tbl d fn lc rule: alias_lookup.induct) (auto split: if_splits)

lemma reverse_inner_Some:
  "reverse_inner k vs ks d fn lc = Some r \<Longrightarrow> fieldName r = fn \<and> confidence r = 17 / 20"
  by (induction k vs ks d fn lc rule: reverse_inner.induct) (auto split: if_splits)

lemma reverse_lookup_Some:
  "reverse_lookup tbl d fn lc = Some r \<Longrightarrow> fieldName r = fn \<and> confidence r = 17 / 20"
  by (induction tbl d fn lc rule: reverse_lookup.induct)
     (auto split: option.splits dest: reverse_inner_Some)

lemma fuzzy_lookup_Some:
  "fuzzy_lookup d fn desc lc = Some r \<Longrightarrow>
     fieldName r = fn \<and> (source r, val r) \<in> set d \<and>
     (confidence r = 4 / 5 \<and> js_includes desc (toLowerCase (source r)) \<or>
      confidence r = 7 / 10 \<and> \<not> js_includes desc (toLowerCase (source r))
        \<and> overlap4 lc (toLowerCase (source r)))"
  by (induction d fn desc lc rule: fuzzy_lookup.induct) (auto split: if_splits)

lemma fuzzy_lookup_skip:
  "\<forall>(k', v') \<in> set pre. \<not> js_includes desc (toLowerCase k') \<and> \<not> overlap4 lc (toLowerCase k') \<Longrightarrow>
   fuzzy_lookup (pre @ rest) fn desc lc = fuzzy_lookup rest fn desc lc"
  by (induction pre) auto

lemma map_one_cases:
  assumes "map_one tbl d f = Some r"
  shows "fieldName r = name f \<and>
    (confidence r = 1 \<and> source r = name f \<and> js_get d (name f) \<noteq> JUndefined
     \<or> confidence r = 9 / 10 \<or> confidence r = 17 / 20
     \<or> confidence r = 4 / 5
     \<or> confidence r = 7 / 10 \<and> js_get d (name f) = JUndefined
        \<and> (source r, val r) \<in> set d
        \<and> overlap4 (toLowerCase (name f)) (toLowerCase (source r)))"
  using assms unfolding map_one_def Let_def
  by (auto split: if_splits option.splits
           dest: alias_lookup_Some reverse_lookup_Some fuzzy_lookup_Some)

lemma map_one_exact:
  assumes "js_get d (name f) \<noteq> JUndefined"
  shows "map_one tbl d f =
     Some \<lparr>fieldName = name f, val = js_get d (name f), confidence = 1, source = name f\<rparr>"
  using assms by (simp add: map_one_def Let_def)

lemma set_collect_results:
  "set (collect_results tbl d fs) = {r. \<exists>f \<in> set fs. map_one tbl d f = Some r}"
  by (induction fs) (auto split: option.splits)

lemma set_mapFields_with:
  "set (mapFields_with tbl fs d thr) =
     {r. thr \<le> confidence r \<and> (\<exists>f \<in> set fs. map_one tbl d f = Some r)}"
  by (auto simp: mapFields_with_def set_collect_results)

lemma collect_results_at_least_weak:
  "r \<in> set (collect_results tbl d fs) \<Longrightarrow> 7 / 10 \<le> confidence r"
  by (auto simp: set_collect_results dest!: map_one_cases)

lemma mapFields_with_default_keeps_all:
  "mapFields_with tbl fs d (7 / 10) = collect_results tbl d fs"
  unfolding mapFields_with_def
proof (rule filter_True)
  show "\<forall>x \<in> set (collect_results tbl d fs). 7 / 10 \<le> confidence x"
    using collect_results_at_least_weak by blast
qed

text \<open>
  Claim C8. Every element of the list \<open>mapFields\<close> returns has a confidence among 1.0, 0.9,
  0.85, 0.8 and 0.7, and that confidence is at least the threshold applied.
\<close>

theorem mapFields_confidence_tiers:
  assumes "r \<in> set (mapFields formFields donorData thr)"
  shows "confidence r \<in> {1, 9 / 10, 17 / 20, 8 / 10, 7 / 10} \<and> confidence r \<ge> thr"
proof -
  from assms obtain f where thr: "thr \<le> confidence r"
    and f: "map_one commonFieldMappings donorData f = Some r"
    by (auto simp: mapFields_def set_mapFields_with)
  from map_one_cases [OF f] have "confidence r \<in> {1, 9 / 10, 17 / 20, 8 / 10, 7 / 10}"
    by auto
  with thr show ?thesis by simp
qed

theorem mapFields_confidence_tiers_witness:
  "\<lparr>fieldName = ''xyz'', val = JStr ''123-45-6789'', confidence = 4 / 5, source = ''ssn''\<rparr>
     \<in> set (mapFields [\<lparr>name = ''xyz'', ftype = ''text'', description = ''enter client ssn here''\<rparr>]
                [(''ssn'', JStr ''123-45-6789'')] (7 / 10))
   \<and> (4 / 5 :: rat) \<in> {1, 9 / 10, 17 / 20, 8 / 10, 7 / 10} \<and> (4 / 5 :: rat) \<ge> 7 / 10"
proof -
  have m: "\<lparr>fieldName = ''xyz'', val = JStr ''123-45-6789'', confidence = 4 / 5, source = ''ssn''\<rparr>
     \<in> set (mapFields [\<lparr>name = ''xyz'', ftype = ''text'', description = ''enter client ssn here''\<rparr>]
                [(''ssn'', JStr ''123-45-6789'')] (7 / 10))"
    by code_simp
  from mapFields_confidence_tiers [OF m] m show ?thesis by simp
qed

text \<open>
  Claim C7. A form field whose name is an own key of the donor data with a defined value is
  given the result with confidence 1.0, that key as source and the key's value, whatever the
  alias table holds; the result is retained for every threshold up to 1.0, and no other
  result is ever returned under that field name.
\<close>

theorem exact_name_confidence_one:
  assumes key: "map_of donorData (name f) = Some v"
    and defined: "v \<noteq> JUndefined"
    and mem: "f \<in> set formFields"
  shows "map_one tbl donorData f =
           Some \<lparr>fieldName = name f, val = v, confidence = 1, source = name f\<rparr>
       \<and> (thr \<le> 1 \<longrightarrow>
            \<lparr>fieldName = name f, val = v, confidence = 1, source = name f\<rparr>
              \<in> set (mapFields_with tbl formFields donorData thr))
       \<and> (\<forall>r \<in> set (mapFields_with tbl formFields donorData thr).
             fieldName r = name f \<longrightarrow> confidence r = 1 \<and> source r = name f \<and> val r = v)"
proof -
  have get: "js_get donorData (name f) = v"
    using key by (simp add: js_get_def)
  have one: "map_one tbl donorData g =
      Some \<lparr>fieldName = name f, val = v, confidence = 1, source = name f\<rparr>"
    if "name g = name f" for g
    using map_one_exact [of donorData g tbl] that get defined by simp
  have a: "map_one tbl donorData f =
      Some \<lparr>fieldName = name f, val = v, confidence = 1, source = name f\<rparr>"
    using one by simp
  have b: "thr \<le> 1 \<longrightarrow>
      \<lparr>fieldName = name f, val = v, confidence = 1, source = name f\<rparr>
        \<in> set (mapFields_with tbl formFields donorData thr)"
    using a mem by (auto simp: set_mapFields_with)
  have c: "confidence r = 1 \<and> source r = name f \<and> val r = v"
    if r: "r \<in> set (mapFields_with tbl formFields donorData thr)" and n: "fieldName r = name f" for r
  proof -
    from r obtain g where g: "map_one tbl donorData g = Some r"
      by (auto simp: set_mapFields_with)
    from map_one_cases [OF g] n have "name g = name f" by simp
    from one [OF this] g show ?thesis by auto
  qed
  from a b c show ?thesis by blast
qed

theorem exact_name_confidence_one_witness:
  "\<lparr>fieldName = ''ssn'', val = JStr ''123'', confidence = 1, source = ''ssn''\<rparr>
     \<in> set (mapFields [\<lparr>name = ''ssn'', ftype = ''text'', description = ''''\<rparr>]
                [(''ssn'', JStr ''123'')] (7 / 10))"
  using exact_name_confidence_one
    [where donorData = "[(''ssn'', JStr ''123'')]"
       and f = "\<lparr>name = ''ssn'', ftype = ''text'', description = ''''\<rparr>"
       and v = "JStr ''123''"
       and formFields = "[\<lparr>name = ''ssn'', ftype = ''text'', description = ''''\<rparr>]"
       and tbl = commonFieldMappings and thr = "7 / 10"]
  by (simp add: mapFields_def)

text \<open>
  Claim C3, as stated, fails: the field \<open>xxabcd\<close> and the donor key \<open>abcdzz\<close> give a result
  with confidence 0.7 although their four-character prefixes \<open>xxab\<close> and \<open>abcd\<close> differ.
\<close>

theorem prefix_claim_counterexample:
  "mapFields [\<lparr>name = ''xxabcd'', ftype = ''text'', description = ''''\<rparr>]
             [(''abcdzz'', JStr ''u'')] (7 / 10)
     = [\<lparr>fieldName = ''xxabcd'', val = JStr ''u'', confidence = 7 / 10, source = ''abcdzz''\<rparr>]
   \<and> take 4 (toLowerCase ''xxabcd'') \<noteq> take 4 (toLowerCase ''abcdzz'')"
  by code_simp

text \<open>
  Claim C3, amended. Every result with confidence 0.7 belongs to a form field and a donor
  key whose lower-cased forms both have at least four characters, and one of the two
  contains the first four characters of the other somewhere (not necessarily at its start).
\<close>

theorem weak_match_is_overlap:
  assumes mem: "r \<in> set (mapFields formFields donorData thr)"
    and weak: "confidence r = 7 / 10"
  shows "\<exists>f \<in> set formFields.
           fieldName r = name f \<and> source r \<in> set (object_keys donorData) \<and>
           length (toLowerCase (name f)) \<ge> 4 \<and> length (toLowerCase (source r)) \<ge> 4 \<and>
           (js_includes (toLowerCase (name f)) (take 4 (toLowerCase (source r))) \<or>
            js_includes (toLowerCase (source r)) (take 4 (toLowerCase (name f))))"
proof -
  from mem obtain f where f: "f \<in> set formFields"
    and m: "map_one commonFieldMappings donorData f = Some r"
    by (auto simp: mapFields_def set_mapFields_with)
  from map_one_cases [OF m] weak
  have n: "fieldName r = name f" and src: "(source r, val r) \<in> set donorData"
    and ov: "overlap4 (toLowerCase (name f)) (toLowerCase (source r))"
    by auto
  from src have "source r \<in> set (object_keys donorData)"
    by (force simp: object_keys_def)
  with f n ov show ?thesis
    by (auto simp: overlap4_def substring04_def)
qed

theorem weak_match_is_overlap_witness:
  "\<exists>f \<in> set [\<lparr>name = ''xxabcd'', ftype = ''text'', description = ''''\<rparr>].
      ''xxabcd'' = name f \<and> ''abcdzz'' \<in> set (object_keys [(''abcdzz'', JStr ''u'')]) \<and>
      length (toLowerCase (name f)) \<ge> 4 \<and> length (toLowerCase ''abcdzz'') \<ge> 4 \<and>
      (js_includes (toLowerCase (name f)) (take 4 (toLowerCase ''abcdzz'')) \<or>
       js_includes (toLowerCase ''abcdzz'') (take 4 (toLowerCase (name f))))"
proof -
  have m: "\<lparr>fieldName = ''xxabcd'', val = JStr ''u'', confidence = 7 / 10, source = ''abcdzz''\<rparr>
     \<in> set (mapFields [\<lparr>name = ''xxabcd'', ftype = ''text'', description = ''''\<rparr>]
                [(''abcdzz'', JStr ''u'')] (7 / 10))"
    by code_simp
  from weak_match_is_overlap [OF m] show ?thesis by simp
qed

text \<open>
  Claim C2, as stated, fails. The description \<open>enter ssn\<close> contains the donor key \<open>ssn\<close>,
  yet with the donor keys in the order \<open>abcdx\<close>, \<open>ssn\<close> the field \<open>abcdefg\<close> is mapped with
  confidence 0.7 from \<open>abcdx\<close>; with the two keys swapped the same field is mapped with
  confidence 0.8 from \<open>ssn\<close>.
\<close>

theorem description_match_counterexample:
  "mapFields [\<lparr>name = ''abcdefg'', ftype = ''text'', description = ''enter ssn''\<rparr>]
             [(''abcdx'', JStr ''u''), (''ssn'', JStr ''123'')] (7 / 10)
     = [\<lparr>fieldName = ''abcdefg'', val = JStr ''u'', confidence = 7 / 10, source = ''abcdx''\<rparr>]
   \<and> js_includes (toLowerCase ''enter ssn'') ''ssn''
   \<and> mapFields [\<lparr>name = ''abcdefg'', ftype = ''text'', description = ''enter ssn''\<rparr>]
             [(''ssn'', JStr ''123''), (''abcdx'', JStr ''u'')] (7 / 10)
     = [\<lparr>fieldName = ''abcdefg'', val = JStr ''123'', confidence = 4 / 5, source = ''ssn''\<rparr>]"
  by code_simp

lemma alias_lookup_None_iff:
  "alias_lookup tbl d fn lc = None \<longleftrightarrow> \<not> alias_tier_matches tbl d lc"
  by (induction tbl d fn lc rule: alias_lookup.induct) (auto simp: alias_tier_matches_def)

lemma reverse_inner_None_iff:
  "reverse_inner k vs ks d fn lc = None \<longleftrightarrow>
     \<not> (matches_entry lc k vs \<and> list_ex (\<lambda>dk. matches_entry (toLowerCase dk) k vs) ks)"
  by (induction k vs ks d fn lc rule: reverse_inner.induct) auto

lemma reverse_lookup_None_iff:
  "reverse_lookup tbl d fn lc = None \<longleftrightarrow> \<not> reverse_tier_matches tbl d lc"
proof (induction tbl d fn lc rule: reverse_lookup.induct)
  case (1 donorData fname lcFieldName)
  then show ?case by (simp add: reverse_tier_matches_def)
next
  case (2 donorKey formVariations rest donorData fname lcFieldName)
  let ?inner = "reverse_inner donorKey formVariations (object_keys donorData) donorData
                  fname lcFieldName"
  let ?here = "matches_entry lcFieldName donorKey formVariations \<and>
               list_ex (\<lambda>dk. matches_entry (toLowerCase dk) donorKey formVariations)
                       (object_keys donorData)"
  have inner: "?inner = None \<longleftrightarrow> \<not> ?here"
    by (rule reverse_inner_None_iff)
  show ?case
  proof (cases ?inner)
    case None
    with inner have "\<not> ?here" by simp
    with None 2 show ?thesis
      by (simp add: reverse_tier_matches_def)
  next
    case (Some r)
    with inner have "?here" by auto
    with Some show ?thesis
      by (simp add: reverse_tier_matches_def)
  qed
qed

lemma fuzzy_lookup_None:
  "\<forall>(k', v') \<in> set d. \<not> js_includes desc (toLowerCase k') \<and> \<not> overlap4 lc (toLowerCase k') \<Longrightarrow>
   fuzzy_lookup d fn desc lc = None"
  by (induction d) auto

lemma map_one_fuzzy:
  assumes "js_get d (name f) = JUndefined"
    and "\<not> alias_tier_matches tbl d (toLowerCase (name f))"
    and "\<not> reverse_tier_matches tbl d (toLowerCase (name f))"
  shows "map_one tbl d f =
     fuzzy_lookup d (name f) (toLowerCase (description f)) (toLowerCase (name f))"
proof -
  have "alias_lookup tbl d (name f) (toLowerCase (name f)) = None"
    using assms(2) by (simp add: alias_lookup_None_iff)
  moreover have "reverse_lookup tbl d (name f) (toLowerCase (name f)) = None"
    using assms(3) by (simp add: reverse_lookup_None_iff)
  ultimately show ?thesis
    using assms(1) by (simp add: map_one_def Let_def)
qed

text \<open>
  Claim C2, amended. For every form field the exact-name test (1.0), the first alias loop
  (0.9) and the second alias loop (0.85) are tried strictly in this order and the first
  that finds something fixes the result. When none of them does, the donor entries are
  scanned once in their enumeration order, each entry tested against the lower-cased
  description first and for the four-character overlap second, and the first entry that
  passes either test fixes the result: confidence 0.8 if it passes the description test,
  confidence 0.7 if it passes only the overlap test, whatever the entries after it are.
  So a key that occurs in the description gives 0.8 only if no entry before it passes
  either test, and the result depends on the order of the donor keys. A field for which
  no entry passes gets no result. The mappings retained are the results of the fields
  that reach the threshold.
\<close>

theorem mapper_tier_order:
  "(js_get d (name f) \<noteq> JUndefined \<longrightarrow>
      map_one tbl d f =
        Some \<lparr>fieldName = name f, val = js_get d (name f), confidence = 1, source = name f\<rparr>)
   \<and> (js_get d (name f) = JUndefined \<and> alias_tier_matches tbl d (toLowerCase (name f)) \<longrightarrow>
        (\<exists>r. map_one tbl d f = Some r \<and> fieldName r = name f \<and> confidence r = 9 / 10))
   \<and> (js_get d (name f) = JUndefined \<and> \<not> alias_tier_matches tbl d (toLowerCase (name f))
        \<and> reverse_tier_matches tbl d (toLowerCase (name f)) \<longrightarrow>
        (\<exists>r. map_one tbl d f = Some r \<and> fieldName r = name f \<and> confidence r = 17 / 20))
   \<and> (js_get d (name f) = JUndefined \<and> \<not> alias_tier_matches tbl d (toLowerCase (name f))
        \<and> \<not> reverse_tier_matches tbl d (toLowerCase (name f))
        \<and> d = pre @ (k, v) # post
        \<and> (\<forall>(k', v') \<in> set pre.
              \<not> js_includes (toLowerCase (description f)) (toLowerCase k') \<and>
              \<not> overlap4 (toLowerCase (name f)) (toLowerCase k'))
        \<and> js_includes (toLowerCase (description f)) (toLowerCase k) \<longrightarrow>
        map_one tbl d f = Some \<lparr>fieldName = name f, val = v, confidence = 8 / 10, source = k\<rparr>)
   \<and> (js_get d (name f) = JUndefined \<and> \<not> alias_tier_matches tbl d (toLowerCase (name f))
        \<and> \<not> reverse_tier_matches tbl d (toLowerCase (name f))
        \<and> d = pre @ (k, v) # post
        \<and> (\<forall>(k', v') \<in> set pre.
              \<not> js_includes (toLowerCase (description f)) (toLowerCase k') \<and>
              \<not> overlap4 (toLowerCase (name f)) (toLowerCase k'))
        \<and> \<not> js_includes (toLowerCase (description f)) (toLowerCase k)
        \<and> overlap4 (toLowerCase (name f)) (toLowerCase k) \<longrightarrow>
        map_one tbl d f = Some \<lparr>fieldName = name f, val = v, confidence = 7 / 10, source = k\<rparr>)
   \<and> (js_get d (name f) = JUndefined \<and> \<not> alias_tier_matches tbl d (toLowerCase (name f))
        \<and> \<not> reverse_tier_matches tbl d (toLowerCase (name f))
        \<and> (\<forall>(k', v') \<in> set d.
              \<not> js_includes (toLowerCase (description f)) (toLowerCase k') \<and>
              \<not> overlap4 (toLowerCase (name f)) (toLowerCase k')) \<longrightarrow>
        map_one tbl d f = None)
   \<and> set (mapFields_with tbl fs d thr)
        = {r. thr \<le> confidence r \<and> (\<exists>g \<in> set fs. map_one tbl d g = Some r)}"
proof (intro conjI impI)
  assume "js_get d (name f) \<noteq> JUndefined"
  then show "map_one tbl d f =
      Some \<lparr>fieldName = name f, val = js_get d (name f), confidence = 1, source = name f\<rparr>"
    by (rule map_one_exact)
next
  assume a: "js_get d (name f) = JUndefined \<and> alias_tier_matches tbl d (toLowerCase (name f))"
  then obtain r where r: "alias_lookup tbl d (name f) (toLowerCase (name f)) = Some r"
    using alias_lookup_None_iff [of tbl d "name f" "toLowerCase (name f)"] by auto
  with a have "map_one tbl d f = Some r"
    by (simp add: map_one_def Let_def)
  with alias_lookup_Some [OF r]
  show "\<exists>r. map_one tbl d f = Some r \<and> fieldName r = name f \<and> confidence r = 9 / 10"
    by blast
next
  assume a: "js_get d (name f) = JUndefined \<and> \<not> alias_tier_matches tbl d (toLowerCase (name f))
        \<and> reverse_tier_matches tbl d (toLowerCase (name f))"
  then have none: "alias_lookup tbl d (name f) (toLowerCase (name f)) = None"
    by (simp add: alias_lookup_None_iff)
  from a obtain r where r: "reverse_lookup tbl d (name f) (toLowerCase (name f)) = Some r"
    using reverse_lookup_None_iff [of tbl d "name f" "toLowerCase (name f)"] by auto
  with a none have "map_one tbl d f = Some r"
    by (simp add: map_one_def Let_def)
  with reverse_lookup_Some [OF r]
  show "\<exists>r. map_one tbl d f = Some r \<and> fieldName r = name f \<and> confidence r = 17 / 20"
    by blast
next
  assume a: "js_get d (name f) = JUndefined \<and> \<not> alias_tier_matches tbl d (toLowerCase (name f))
        \<and> \<not> reverse_tier_matches tbl d (toLowerCase (name f))
        \<and> d = pre @ (k, v) # post
        \<and> (\<forall>(k', v') \<in> set pre.
              \<not> js_includes (toLowerCase (description f)) (toLowerCase k') \<and>
              \<not> overlap4 (toLowerCase (name f)) (toLowerCase k'))
        \<and> js_includes (toLowerCase (description f)) (toLowerCase k)"
  then have m: "map_one tbl d f =
      fuzzy_lookup d (name f) (toLowerCase (description f)) (toLowerCase (name f))"
    using map_one_fuzzy [of d f tbl] by blast
  from a have "fuzzy_lookup d (name f) (toLowerCase (description f)) (toLowerCase (name f))
      = fuzzy_lookup ((k, v) # post) (name f) (toLowerCase (description f)) (toLowerCase (name f))"
    using fuzzy_lookup_skip [of pre "toLowerCase (description f)" "toLowerCase (name f)"
            "(k, v) # post" "name f"]
    by blast
  with a m
  show "map_one tbl d f = Some \<lparr>fieldName = name f, val = v, confidence = 8 / 10, source = k\<rparr>"
    by simp
next
  assume a: "js_get d (name f) = JUndefined \<and> \<not> alias_tier_matches tbl d (toLowerCase (name f))
        \<and> \<not> reverse_tier_matches tbl d (toLowerCase (name f))
        \<and> d = pre @ (k, v) # post
        \<and> (\<forall>(k', v') \<in> set pre.
              \<not> js_includes (toLowerCase (description f)) (toLowerCase k') \<and>
              \<not> overlap4 (toLowerCase (name f)) (toLowerCase k'))
        \<and> \<not> js_includes (toLowerCase (description f)) (toLowerCase k)
        \<and> overlap4 (toLowerCase (name f)) (toLowerCase k)"
  then have m: "map_one tbl d f =
      fuzzy_lookup d (name f) (toLowerCase (description f)) (toLowerCase (name f))"
    using map_one_fuzzy [of d f tbl] by blast
  from a have "fuzzy_lookup d (name f) (toLowerCase (description f)) (toLowerCase (name f))
      = fuzzy_lookup ((k, v) # post) (name f) (toLowerCase (description f)) (toLowerCase (name f))"
    using fuzzy_lookup_skip [of pre "toLowerCase (description f)" "toLowerCase (name f)"
            "(k, v) # post" "name f"]
    by blast
  with a m
  show "map_one tbl d f = Some \<lparr>fieldName = name f, val = v, confidence = 7 / 10, source = k\<rparr>"
    by simp
next
  assume a: "js_get d (name f) = JUndefined \<and> \<not> alias_tier_matches tbl d (toLowerCase (name f))
        \<and> \<not> reverse_tier_matches tbl d (toLowerCase (name f))
        \<and> (\<forall>(k', v') \<in> set d.
              \<not> js_includes (toLowerCase (description f)) (toLowerCase k') \<and>
              \<not> overlap4 (toLowerCase (name f)) (toLowerCase k'))"
  then have "map_one tbl d f =
      fuzzy_lookup d (name f) (toLowerCase (description f)) (toLowerCase (name f))"
    using map_one_fuzzy [of d f tbl] by blast
  moreover from a
  have "fuzzy_lookup d (name f) (toLowerCase (description f)) (toLowerCase (name f)) = None"
    using fuzzy_lookup_None [of d "toLowerCase (description f)" "toLowerCase (name f)" "name f"]
    by blast
  ultimately show "map_one tbl d f = None"
    by simp
next
  show "set (mapFields_with tbl fs d thr)
      = {r. thr \<le> confidence r \<and> (\<exists>g \<in> set fs. map_one tbl d g = Some r)}"
    by (rule set_mapFields_with)
qed

theorem mapper_tier_order_witness:
  "map_one commonFieldMappings
       [(''zz'', JStr ''q''), (''ssn'', JStr ''123''), (''abcdx'', JStr ''u'')]
       \<lparr>name = ''abcdefg'', ftype = ''text'', description = ''enter ssn''\<rparr>
     = Some \<lparr>fieldName = ''abcdefg'', val = JStr ''123'', confidence = 8 / 10, source = ''ssn''\<rparr>
   \<and> map_one commonFieldMappings
       [(''zz'', JStr ''q''), (''abcdx'', JStr ''u''), (''ssn'', JStr ''123'')]
       \<lparr>name = ''abcdefg'', ftype = ''text'', description = ''enter ssn''\<rparr>
     = Some \<lparr>fieldName = ''abcdefg'', val = JStr ''u'', confidence = 7 / 10, source = ''abcdx''\<rparr>
   \<and> (\<exists>r. map_one commonFieldMappings [(''firstName'', JStr ''Jane'')]
              \<lparr>name = ''first_name'', ftype = ''text'', description = ''First name''\<rparr> = Some r
          \<and> fieldName r = ''first_name'' \<and> confidence r = 9 / 10)"
proof -
  let ?f = "\<lparr>name = ''abcdefg'', ftype = ''text'', description = ''enter ssn''\<rparr>"
  let ?d1 = "[(''zz'', JStr ''q''), (''ssn'', JStr ''123''), (''abcdx'', JStr ''u'')]"
  let ?d2 = "[(''zz'', JStr ''q''), (''abcdx'', JStr ''u''), (''ssn'', JStr ''123'')]"
  let ?g = "\<lparr>name = ''first_name'', ftype = ''text'', description = ''First name''\<rparr>"
  let ?e = "[(''firstName'', JStr ''Jane'')]"
  have n: "name ?f = ''abcdefg''" "description ?f = ''enter ssn''" "name ?g = ''first_name''"
    by simp_all
  have zz1: "\<not> js_includes (toLowerCase ''enter ssn'') (toLowerCase ''zz'')"
    by code_simp
  have zz2: "\<not> overlap4 (toLowerCase ''abcdefg'') (toLowerCase ''zz'')"
    by code_simp
  have zz: "\<forall>(k', v') \<in> set [(''zz'', JStr ''q'')].
              \<not> js_includes (toLowerCase (description ?f)) (toLowerCase k') \<and>
              \<not> overlap4 (toLowerCase (name ?f)) (toLowerCase k')"
    using zz1 zz2 by (simp only: n list.set ball_simps prod.case simp_thms)
  have g1: "js_get ?d1 ''abcdefg'' = JUndefined" by code_simp
  have g2: "js_get ?d2 ''abcdefg'' = JUndefined" by code_simp
  have a1: "\<not> alias_tier_matches commonFieldMappings ?d1 (toLowerCase ''abcdefg'')"
    by code_simp
  have a2: "\<not> alias_tier_matches commonFieldMappings ?d2 (toLowerCase ''abcdefg'')"
    by code_simp
  have r1: "\<not> reverse_tier_matches commonFieldMappings ?d1 (toLowerCase ''abcdefg'')"
    by code_simp
  have r2: "\<not> reverse_tier_matches commonFieldMappings ?d2 (toLowerCase ''abcdefg'')"
    by code_simp
  have s1: "?d1 = [(''zz'', JStr ''q'')] @ (''ssn'', JStr ''123'') # [(''abcdx'', JStr ''u'')]"
    by simp
  have s2: "?d2 = [(''zz'', JStr ''q'')] @ (''abcdx'', JStr ''u'') # [(''ssn'', JStr ''123'')]"
    by simp
  have hit: "js_includes (toLowerCase ''enter ssn'') (toLowerCase ''ssn'')"
    by code_simp
  have miss: "\<not> js_includes (toLowerCase ''enter ssn'') (toLowerCase ''abcdx'')"
    by code_simp
  have ov: "overlap4 (toLowerCase ''abcdefg'') (toLowerCase ''abcdx'')"
    by code_simp
  have g3: "js_get ?e ''first_name'' = JUndefined" by code_simp
  have a3: "alias_tier_matches commonFieldMappings ?e (toLowerCase ''first_name'')"
    by code_simp
  have a: "map_one commonFieldMappings ?d1 ?f
      = Some \<lparr>fieldName = name ?f, val = JStr ''123'', confidence = 8 / 10, source = ''ssn''\<rparr>"
    using mapper_tier_order
      [where d = ?d1 and f = ?f and tbl = commonFieldMappings
         and pre = "[(''zz'', JStr ''q'')]" and k = "''ssn''" and v = "JStr ''123''"
         and post = "[(''abcdx'', JStr ''u'')]",
       THEN conjunct2, THEN conjunct2, THEN conjunct2, THEN conjunct1]
      zz g1 a1 r1 s1 hit
    unfolding n by blast
  have b: "map_one commonFieldMappings ?d2 ?f
      = Some \<lparr>fieldName = name ?f, val = JStr ''u'', confidence = 7 / 10, source = ''abcdx''\<rparr>"
    using mapper_tier_order
      [where d = ?d2 and f = ?f and tbl = commonFieldMappings
         and pre = "[(''zz'', JStr ''q'')]" and k = "''abcdx''" and v = "JStr ''u''"
         and post = "[(''ssn'', JStr ''123'')]",
       THEN conjunct2, THEN conjunct2, THEN conjunct2, THEN conjunct2, THEN conjunct1]
      zz g2 a2 r2 s2 miss ov
    unfolding n by blast
  have c: "\<exists>r. map_one commonFieldMappings ?e ?g = Some r
             \<and> fieldName r = name ?g \<and> confidence r = 9 / 10"
    using mapper_tier_order
      [where d = ?e and f = ?g and tbl = commonFieldMappings,
       THEN conjunct2, THEN conjunct1]
      g3 a3
    unfolding n by blast
  from a b c show ?thesis
    unfolding n by blast
qed

text \<open>
  Claim C9. A request whose \<open>confidence\<close> is exactly 0 is answered like a request without
  \<open>confidence\<close>: the threshold applied and reported is the default 0.7, and the mapped
  fields are those of \<open>mapFields\<close> at 0.7, which are all the results the tiers produce
  (a result of confidence 0.7 passes the test \<open>0.7 >= 0.7\<close>).
\<close>

theorem zero_confidence_is_default:
  "confidence_or_default (Some 0) default_confidenceThreshold = 7 / 10
   \<and> mapFieldsHandler (request\<lparr>req_confidence := Some 0\<rparr>)
       = mapFieldsHandler (request\<lparr>req_confidence := None\<rparr>)
   \<and> (case mapFieldsHandler
             \<lparr>req_formFields = Some fs, req_donorData = Some d, req_confidence = Some 0\<rparr> of
        Status200 body \<Rightarrow>
          confidenceThreshold body = 7 / 10 \<and>
          mappedFields body = mapFields fs d (7 / 10) \<and>
          mappedFields body = collect_results commonFieldMappings d fs
      | Status400 msg \<Rightarrow> False)"
proof -
  have a: "confidence_or_default (Some 0) default_confidenceThreshold = 7 / 10"
    by (simp add: confidence_or_default_def default_confidenceThreshold_def)
  have b: "mapFieldsHandler (request\<lparr>req_confidence := Some 0\<rparr>)
       = mapFieldsHandler (request\<lparr>req_confidence := None\<rparr>)"
    by (simp add: mapFieldsHandler_def confidence_or_default_def split: option.splits)
  have c: "mapFieldsHandler
             \<lparr>req_formFields = Some fs, req_donorData = Some d, req_confidence = Some 0\<rparr>
       = Status200
           \<lparr>mappedFields = mapFields fs d (7 / 10),
            confidenceThreshold = 7 / 10,
            unmappedFormFields =
              filter (\<lambda>field. \<not> list_ex (\<lambda>m. fieldName m = name field)
                        (mapFields fs d (7 / 10))) fs,
            unmappedDonorFields =
              filter (\<lambda>key. \<not> list_ex (\<lambda>m. source m = key)
                        (mapFields fs d (7 / 10))) (object_keys d)\<rparr>"
    by (simp add: mapFieldsHandler_def a Let_def)
  have d: "mapFields fs d (7 / 10) = collect_results commonFieldMappings d fs"
    by (simp only: mapFields_def mapFields_with_default_keeps_all)
  show ?thesis
    unfolding c using a b d by simp
qed

section \<open>Properties of donor-data aggregation\<close>

lemma map_of_insert_index:
  "k \<notin> fst ` set obj \<Longrightarrow> map_of (insert_index k v obj) = (map_of obj)(k \<mapsto> v)"
proof (induction obj)
  case Nil
  then show ?case by simp
next
  case (Cons p obj)
  obtain k' v' where p: "p = (k', v')" by (cases p)
  with Cons.prems have ne: "k' \<noteq> k" and rest: "k \<notin> fst ` set obj" by auto
  show ?case
    unfolding p using ne Cons.IH [OF rest]
    by (auto simp: fun_upd_twist)
qed

lemma map_of_js_set: "map_of (js_set k v obj) = (map_of obj)(k \<mapsto> v)"
proof (cases "k \<in> set (object_keys obj)")
  case True
  then show ?thesis by (simp add: js_set_def update_conv')
next
  case False
  then have fresh: "k \<notin> fst ` set obj" by (simp add: object_keys_def)
  then have none: "map_of obj k = None" by (simp add: map_of_eq_None_iff)
  show ?thesis
  proof (cases "is_array_index k")
    case False
    have "map_of (obj @ [(k, v)]) x = ((map_of obj)(k \<mapsto> v)) x" for x
      using none by (simp add: map_add_def split: option.splits)
    then have "map_of (obj @ [(k, v)]) = (map_of obj)(k \<mapsto> v)" by (rule ext)
    with False \<open>k \<notin> set (object_keys obj)\<close> show ?thesis by (simp add: js_set_def)
  next
    case True
    with \<open>k \<notin> set (object_keys obj)\<close> show ?thesis
      by (simp add: js_set_def map_of_insert_index [OF fresh])
  qed
qed

lemma map_of_object_spread:
  "distinct (map fst b) \<Longrightarrow> map_of (object_spread a b) = map_of a ++ map_of b"
  unfolding object_spread_def
proof (induction b arbitrary: a)
  case Nil
  then show ?case by simp
next
  case (Cons p b)
  obtain k v where p: "p = (k, v)" by (cases p)
  from Cons.prems p have fresh: "k \<notin> fst ` set b" and d: "distinct (map fst b)"
    by auto
  from fresh have none: "map_of b k = None"
    by (simp add: map_of_eq_None_iff)
  have lhs: "foldl (\<lambda>acc (k, v). js_set k v acc) a (p # b)
      = foldl (\<lambda>acc (k, v). js_set k v acc) (js_set k v a) b"
    by (simp add: p)
  have "map_of (foldl (\<lambda>acc (k, v). js_set k v acc) (js_set k v a) b) x
      = (map_of a ++ map_of (p # b)) x" for x
    using none by (simp add: Cons.IH [OF d] map_of_js_set p map_add_def split: option.splits)
  then show ?case unfolding lhs by (rule ext)
qed

lemma combineDonorData_shaped:
  assumes "\<forall>r \<in> set results. status r = Success \<longrightarrow> data r \<noteq> None"
  shows "combineDonorData acc results = Inr (foldl object_spread acc (successful_maps results))"
  using assms
proof (induction results arbitrary: acc)
  case Nil
  then show ?case by simp
next
  case (Cons r rs)
  then show ?case
    by (auto split: option.splits extract_data.splits)
qed

lemma map_of_foldl_object_spread:
  assumes "\<forall>m \<in> set ms. distinct (map fst m)"
  shows "map_of (foldl object_spread acc ms) = foldl (\<lambda>acc m. acc ++ map_of m) (map_of acc) ms"
  using assms by (induction ms arbitrary: acc) (simp_all add: map_of_object_spread)

lemma combineDonorData_union:
  assumes shaped: "\<forall>r \<in> set results. status r = Success \<longrightarrow> data r \<noteq> None"
    and wf: "\<forall>m \<in> set (successful_maps results). distinct (map fst m)"
  shows "\<exists>donorData. combineDonorData [] results = Inr donorData
           \<and> map_of donorData = union_of_maps (successful_maps results)"
  using combineDonorData_shaped [OF shaped, of "[]"] map_of_foldl_object_spread [OF wf, of "[]"]
  by (simp add: union_of_maps_def)

lemma allDonorExtrationsFailed_iff:
  "allDonorExtrationsFailed results \<longleftrightarrow> (\<forall>r \<in> set results. status r = Failure)"
  by (simp add: allDonorExtrationsFailed_def list_all_iff)

text \<open>
  Claim C5. Take the extraction results of \<open>N\<close> donor documents, each success carrying its
  payload of distinct keys. If \<open>N > 0\<close> and all results are failures, the run ends with the
  failure ``All donor data extractions failed'', the cache untouched and the mapping step
  not entered. If some result is a success, the combined donor record is exactly the union
  of the successful key/value maps, it is cached, and the run goes on to the mapping step
  with it. If \<open>N = 0\<close>, the combined record is empty and the run goes on to the mapping step
  with the empty record.
\<close>

theorem donor_aggregation_cases:
  assumes len: "length donorDataResults = length donorDocumentPaths"
    and shaped: "\<forall>r \<in> set donorDataResults. status r = Success \<longrightarrow> data r \<noteq> None"
    and wf: "\<forall>m \<in> set (successful_maps donorDataResults). distinct (map fst m)"
  shows "(donorDataResults \<noteq> [] \<and> (\<forall>r \<in> set donorDataResults. status r = Failure) \<longrightarrow>
            aggregate_stage env wid cache opts formPath formFields donorDocumentPaths donorDataResults
              = (\<lparr>status = Failure, message = ''All donor data extractions failed'',
                  data = Some (FormPathFieldsData
                                 (exposed_path (skipDownloadOnError_or_true opts) formPath) formFields),
                  error = Some ''Failed to extract data from any donor documents''\<rparr>, cache))
       \<and> ((\<exists>r \<in> set donorDataResults. status r = Success) \<longrightarrow>
            (\<exists>donorData.
               combineDonorData [] donorDataResults = Inr donorData \<and>
               map_of donorData = union_of_maps (successful_maps donorDataResults) \<and>
               aggregate_stage env wid cache opts formPath formFields donorDocumentPaths donorDataResults
                 = mapping_stage env wid (cache(wid @ ''-donor-data'' \<mapsto> CachedDonorData donorData))
                     opts formPath formFields donorData))
       \<and> (donorDataResults = [] \<longrightarrow>
            combineDonorData [] donorDataResults = Inr [] \<and>
            aggregate_stage env wid cache opts formPath formFields donorDocumentPaths donorDataResults
              = mapping_stage env wid (cache(wid @ ''-donor-data'' \<mapsto> CachedDonorData []))
                  opts formPath formFields [])"
proof (intro conjI impI)
  assume "donorDataResults \<noteq> [] \<and> (\<forall>r \<in> set donorDataResults. status r = Failure)"
  with len show "aggregate_stage env wid cache opts formPath formFields donorDocumentPaths donorDataResults
      = (\<lparr>status = Failure, message = ''All donor data extractions failed'',
          data = Some (FormPathFieldsData
                         (exposed_path (skipDownloadOnError_or_true opts) formPath) formFields),
          error = Some ''Failed to extract data from any donor documents''\<rparr>, cache)"
    by (auto simp: aggregate_stage_def allDonorExtrationsFailed_iff)
next
  assume some: "\<exists>r \<in> set donorDataResults. status r = Success"
  from combineDonorData_union [OF shaped wf] obtain donorData
    where c: "combineDonorData [] donorDataResults = Inr donorData"
      and u: "map_of donorData = union_of_maps (successful_maps donorDataResults)"
    by blast
  from some obtain r0 where "r0 \<in> set donorDataResults" "status r0 = Success"
    by blast
  then have "\<not> allDonorExtrationsFailed donorDataResults"
    unfolding allDonorExtrationsFailed_iff by (metis wstatus.distinct(1))
  with c have "aggregate_stage env wid cache opts formPath formFields donorDocumentPaths donorDataResults
      = mapping_stage env wid (cache(wid @ ''-donor-data'' \<mapsto> CachedDonorData donorData))
          opts formPath formFields donorData"
    by (simp add: aggregate_stage_def)
  with c u show "\<exists>donorData.
      combineDonorData [] donorDataResults = Inr donorData \<and>
      map_of donorData = union_of_maps (successful_maps donorDataResults) \<and>
      aggregate_stage env wid cache opts formPath formFields donorDocumentPaths donorDataResults
        = mapping_stage env wid (cache(wid @ ''-donor-data'' \<mapsto> CachedDonorData donorData))
            opts formPath formFields donorData"
    by blast
next
  assume "donorDataResults = []"
  then show "combineDonorData [] donorDataResults = Inr []" by simp
next
  assume e: "donorDataResults = []"
  with len have "donorDocumentPaths = []" by simp
  with e show "aggregate_stage env wid cache opts formPath formFields donorDocumentPaths donorDataResults
      = mapping_stage env wid (cache(wid @ ''-donor-data'' \<mapsto> CachedDonorData []))
          opts formPath formFields []"
    by (simp add: aggregate_stage_def)
qed

theorem donor_aggregation_cases_witness:
  "aggregate_stage
     \<lparr>downloadPdf = (\<lambda>url. Throws NonError),
      extractFormFields = (\<lambda>p prov. Throws NonError),
      extractDonorData = (\<lambda>p prov. Throws NonError),
      mapFieldsToData = (\<lambda>fs d c. Throws NonError),
      fillForm = (\<lambda>p d. Throws NonError)\<rparr>
     ''form-filling-1'' Map.empty None ''/uploads/form.pdf'' (Some []) [''/docs/id.png'']
     [failure_result ''Donor data extraction failed'' ''timeout'']
     = (\<lparr>status = Failure, message = ''All donor data extractions failed'',
         data = Some (FormPathFieldsData None (Some [])),
         error = Some ''Failed to extract data from any donor documents''\<rparr>, Map.empty)
   \<and> (\<exists>donorData.
        combineDonorData []
          [success_result ''Donor data extracted successfully''
             (ExtractData (Some [(''city'', JStr ''Oakland'')]) None),
           failure_result ''Donor data extraction failed'' ''timeout'']
          = Inr donorData
        \<and> map_of donorData = [''city'' \<mapsto> JStr ''Oakland''])
   \<and> combineDonorData [] [] = Inr []"
proof -
  let ?env = "\<lparr>downloadPdf = (\<lambda>url. Throws NonError),
      extractFormFields = (\<lambda>p prov. Throws NonError),
      extractDonorData = (\<lambda>p prov. Throws NonError),
      mapFieldsToData = (\<lambda>fs d c. Throws NonError),
      fillForm = (\<lambda>p d. Throws NonError)\<rparr>"
  let ?fail = "failure_result ''Donor data extraction failed'' ''timeout'' :: extract_data WorkflowResult"
  let ?ok = "success_result ''Donor data extracted successfully''
               (ExtractData (Some [(''city'', JStr ''Oakland'')]) None)"
  have a: "aggregate_stage ?env ''form-filling-1'' Map.empty None ''/uploads/form.pdf'' (Some [])
             [''/docs/id.png''] [?fail]
      = (\<lparr>status = Failure, message = ''All donor data extractions failed'',
          data = Some (FormPathFieldsData None (Some [])),
          error = Some ''Failed to extract data from any donor documents''\<rparr>, Map.empty)"
    using donor_aggregation_cases
      [where donorDataResults = "[?fail]" and donorDocumentPaths = "[''/docs/id.png'']"
         and env = ?env and wid = "''form-filling-1''" and cache = Map.empty and opts = None
         and formPath = "''/uploads/form.pdf''" and formFields = "Some []"]
    by (simp add: failure_result_def exposed_path_def skipDownloadOnError_or_true_def)
  have b: "\<exists>donorData. combineDonorData [] [?ok, ?fail] = Inr donorData
             \<and> map_of donorData = [''city'' \<mapsto> JStr ''Oakland'']"
    using donor_aggregation_cases
      [where donorDataResults = "[?ok, ?fail]"
         and donorDocumentPaths = "[''/docs/id.png'', ''/docs/bill.png'']"
         and env = ?env and wid = "''form-filling-1''" and cache = Map.empty and opts = None
         and formPath = "''/uploads/form.pdf''" and formFields = "Some []"]
    by (auto simp: failure_result_def success_result_def union_of_maps_def)
  have c: "combineDonorData [] [] = Inr []"
    using donor_aggregation_cases
      [where donorDataResults = "[]" and donorDocumentPaths = "[]"
         and env = ?env and wid = "''form-filling-1''" and cache = Map.empty and opts = None
         and formPath = "''/uploads/form.pdf''" and formFields = "Some []"]
    by simp
  from a b c show ?thesis by blast
qed

text \<open>
  Claim C6. When two successful extractions \<open>A\<close> and \<open>B\<close> are merged in the order \<open>[A, B]\<close>
  and \<open>B\<close> defines the key \<open>k\<close>, the merged record has \<open>B\<close>'s value at \<open>k\<close>, whether or not
  \<open>A\<close> defines \<open>k\<close> as well.
\<close>

theorem later_document_wins:
  assumes A: "status A = Success" "data A = Some (ExtractData (Some a) pa)"
    and B: "status B = Success" "data B = Some (ExtractData (Some b) pb)"
    and wf: "distinct (map fst a)" "distinct (map fst b)"
    and k: "map_of b k = Some vb"
  shows "\<exists>merged. combineDonorData [] [A, B] = Inr merged
           \<and> map_of merged k = Some vb \<and> js_get merged k = js_get b k"
proof -
  have c: "combineDonorData [] [A, B] = Inr (object_spread (object_spread [] a) b)"
    using A B by simp
  have "map_of (object_spread (object_spread [] a) b) = (map_of [] ++ map_of a) ++ map_of b"
    using wf by (simp add: map_of_object_spread)
  with k have m: "map_of (object_spread (object_spread [] a) b) k = Some vb"
    by simp
  with k have "js_get (object_spread (object_spread [] a) b) k = js_get b k"
    by (simp add: js_get_def)
  with c m show ?thesis by blast
qed

theorem later_document_wins_witness:
  "\<exists>merged.
     combineDonorData []
       [success_result ''Donor data extracted successfully''
          (ExtractData (Some [(''city'', JStr ''Oakland''), (''state'', JStr ''CA'')]) None),
        success_result ''Donor data extracted successfully''
          (ExtractData (Some [(''zipCode'', JStr ''94607''), (''city'', JStr ''Berkeley'')]) None)]
       = Inr merged
     \<and> map_of merged ''city'' = Some (JStr ''Berkeley'')
     \<and> js_get merged ''city''
         = js_get [(''zipCode'', JStr ''94607''), (''city'', JStr ''Berkeley'')] ''city''"
  using later_document_wins
    [where A = "success_result ''Donor data extracted successfully''
                  (ExtractData (Some [(''city'', JStr ''Oakland''), (''state'', JStr ''CA'')]) None)"
       and B = "success_result ''Donor data extracted successfully''
                  (ExtractData (Some [(''zipCode'', JStr ''94607''), (''city'', JStr ''Berkeley'')]) None)"
       and a = "[(''city'', JStr ''Oakland''), (''state'', JStr ''CA'')]"
       and b = "[(''zipCode'', JStr ''94607''), (''city'', JStr ''Berkeley'')]"
       and pa = None and pb = None and k = "''city''" and vb = "JStr ''Berkeley''"]
  by (simp add: success_result_def)

section \<open>Properties of the form-filling run\<close>

lemma run_after_download:
  assumes "downloadPdf env url = Returns dr" and "status dr = Success"
    and "data dr = Some (DownloadData p)"
  shows "runFormFillingWorkflow env now cache url paths options
     = fields_stage env (form_workflowId now)
         (cache(form_workflowId now @ ''-download'' \<mapsto> CachedDownload dr)) options p paths"
  using assms by (simp add: runFormFillingWorkflow_def Let_def)

lemma fields_stage_failure:
  assumes "(\<exists>e. extractFormFields env p (options_analysisProvider options) = Throws e) \<or>
           (\<exists>r. extractFormFields env p (options_analysisProvider options) = Returns r
                \<and> status r = Failure)"
  shows "status (fst (fields_stage env wid cache options p paths)) = Failure
       \<and> data (fst (fields_stage env wid cache options p paths))
           = Some (FormPathData (exposed_path (skipDownloadOnError_or_true options) p))
       \<and> snd (fields_stage env wid cache options p paths) = cache"
  using assms by (auto simp: fields_stage_def Let_def)

lemma skip_flag_explicit:
  "skipDownloadOnError_or_true options
     \<longleftrightarrow> \<not> (\<exists>opts. options = Some opts \<and> skipDownloadOnError opts = Some False)"
  by (auto simp: skipDownloadOnError_or_true_def split: option.splits)

text \<open>
  Claim C4, as stated, fails: with the options omitted, a run whose download succeeds and
  whose field extraction fails reports the form path as \<open>null\<close>.
\<close>

theorem omitted_options_hide_path_counterexample:
  "fst (runFormFillingWorkflow
          \<lparr>downloadPdf = (\<lambda>url. Returns (success_result ''PDF downloaded successfully''
                                           (DownloadData ''/uploads/downloads/form-1.pdf''))),
           extractFormFields = (\<lambda>p prov. Returns (failure_result ''Field extraction failed''
                                           ''Invalid response from AI Analysis server'')),
           extractDonorData = (\<lambda>p prov. Throws NonError),
           mapFieldsToData = (\<lambda>fs d c. Throws NonError),
           fillForm = (\<lambda>p d. Throws NonError)\<rparr>
          1 Map.empty ''https://example.org/form.pdf'' [] None)
     = \<lparr>status = Failure, message = ''Field extraction failed'',
        data = Some (FormPathData None),
        error = Some ''Invalid response from AI Analysis server''\<rparr>"
  by (simp add: runFormFillingWorkflow_def fields_stage_def success_result_def
        failure_result_def exposed_path_def skipDownloadOnError_or_true_def
        options_analysisProvider_def Let_def)

text \<open>
  Claim C4, amended. For a run whose download succeeds and whose field extraction then
  fails (by throwing or by returning a failure), the failure response carries the
  downloaded form's path exactly when the options are given and set \<open>skipDownloadOnError\<close>
  to \<open>false\<close>; the path is \<open>null\<close> when the flag is \<open>true\<close> and also when it or the options
  are left out, because the flag defaults to \<open>true\<close>.
\<close>

theorem extraction_failure_path_exposure:
  assumes dl: "downloadPdf env url = Returns dr"
    and ok: "status dr = Success"
    and dp: "data dr = Some (DownloadData p)"
    and fail: "(\<exists>e. extractFormFields env p (options_analysisProvider options) = Throws e) \<or>
               (\<exists>r. extractFormFields env p (options_analysisProvider options) = Returns r
                    \<and> status r = Failure)"
  shows "status (fst (runFormFillingWorkflow env now cache url paths options)) = Failure
       \<and> data (fst (runFormFillingWorkflow env now cache url paths options))
           = Some (FormPathData
                     (if \<exists>opts. options = Some opts \<and> skipDownloadOnError opts = Some False
                      then Some p else None))"
  unfolding run_after_download [OF dl ok dp]
  using fields_stage_failure [OF fail] skip_flag_explicit [of options]
  by (simp add: exposed_path_def)

theorem extraction_failure_path_exposure_witness:
  "data (fst (runFormFillingWorkflow
          \<lparr>downloadPdf = (\<lambda>url. Returns (success_result ''PDF downloaded successfully''
                                           (DownloadData ''/uploads/downloads/form-1.pdf''))),
           extractFormFields = (\<lambda>p prov. Returns (failure_result ''Field extraction failed''
                                           ''Invalid response from AI Analysis server'')),
           extractDonorData = (\<lambda>p prov. Throws NonError),
           mapFieldsToData = (\<lambda>fs d c. Throws NonError),
           fillForm = (\<lambda>p d. Throws NonError)\<rparr>
          1 Map.empty ''https://example.org/form.pdf'' []
          (Some \<lparr>analysisProvider = None, confidenceThreshold_option = None,
                 skipEmptyFields = None, allowPartial = None,
                 skipDownloadOnError = Some False\<rparr>)))
     = Some (FormPathData (Some ''/uploads/downloads/form-1.pdf''))"
proof -
  let ?dr = "success_result ''PDF downloaded successfully''
               (DownloadData ''/uploads/downloads/form-1.pdf'')"
  let ?env = "\<lparr>downloadPdf = (\<lambda>url. Returns ?dr),
           extractFormFields = (\<lambda>p prov. Returns (failure_result ''Field extraction failed''
                                           ''Invalid response from AI Analysis server'')),
           extractDonorData = (\<lambda>p prov. Throws NonError),
           mapFieldsToData = (\<lambda>fs d c. Throws NonError),
           fillForm = (\<lambda>p d. Throws NonError)\<rparr>"
  let ?options = "Some \<lparr>analysisProvider = None, confidenceThreshold_option = None,
                 skipEmptyFields = None, allowPartial = None,
                 skipDownloadOnError = Some False\<rparr>"
  have h1: "downloadPdf ?env ''https://example.org/form.pdf'' = Returns ?dr" by simp
  have h2: "status ?dr = Success" by (simp add: success_result_def)
  have h3: "data ?dr = Some (DownloadData ''/uploads/downloads/form-1.pdf'')"
    by (simp add: success_result_def)
  have h4: "(\<exists>e. extractFormFields ?env ''/uploads/downloads/form-1.pdf''
                   (options_analysisProvider ?options) = Throws e) \<or>
            (\<exists>r. extractFormFields ?env ''/uploads/downloads/form-1.pdf''
                   (options_analysisProvider ?options) = Returns r \<and> status r = Failure)"
    by (simp add: failure_result_def)
  from extraction_failure_path_exposure [OF h1 h2 h3 h4, of 1 Map.empty "[]"]
  show ?thesis by simp
qed

subsection \<open>What a run leaves under its filled-form key\<close>













lemma string_of_nat_7: "string_of_nat 7 = ''7''"
  by code_simp




section \<open>Properties of the orchestration service\<close>

lemma analysis_getWorkflowResult_iff:
  "analysis_getWorkflowResult cache wid \<noteq> None \<longleftrightarrow>
     cache (wid @ ''-download'') \<noteq> None \<and> cache (wid @ ''-extraction'') \<noteq> None"
  by (simp add: analysis_getWorkflowResult_def split: option.splits)

text \<open>
  A run whose download fails caches nothing, and \<open>getWorkflowResult\<close> returns \<open>null\<close> unless
  both outputs are cached: the status query of such a run carries a \<open>null\<close> result.
\<close>

lemma failed_service_run_reports_null:
  "getWorkflowStatus
     (runWorkflowAsync
        \<lparr>pa_downloadPdf = (\<lambda>url fname. Returns (failure_result ''PDF download failed''
                                                 ''Invalid response from Puppeteer server'')),
         pa_extractFormFields = (\<lambda>p prov. Throws NonError)\<rparr>
        8 9 (service_workflowId 7) ''https://example.org/form.pdf'' None None
        (snd (startPdfAnalysisWorkflow 7 7 (Some ''https://example.org/form.pdf'') initial_service)))
     (service_workflowId 7)
   = StatusFinished
       \<lparr>fb_workflowId = ''pdf-analysis-7'', fb_status = ''failure'', fb_startTime = 7,
        fb_completedTime = Some 9, fb_result = None\<rparr>"
  by (simp add: getWorkflowStatus_def runWorkflowAsync_def startPdfAnalysisWorkflow_def
        runPdfAnalysisWorkflow_def initial_service_def service_workflowId_def
        analysis_workflowId_def analysis_getWorkflowResult_def status_string_def
        failure_result_def string_of_nat_7 Let_def)

text \<open>
  Claim C1. The claim fails on the code, by a slip. The status handler asks the
  orchestrator for the result of a completed run under the run id the service issued
  (\<open>pdf-analysis-\<dots>\<close>), while the orchestrator has cached the run's outputs under an id it
  generated itself (\<open>workflow-\<dots>\<close>). At the input below a run is started through the
  service at time 7, its download and its extraction both succeed, and it reaches the
  status \<open>success\<close>; the status query for its id then carries a \<open>null\<close> result, where the
  claim promises the aggregate of the two cached outputs.
\<close>

theorem successful_service_run_reports_null:
  "getWorkflowStatus
     (runWorkflowAsync
        \<lparr>pa_downloadPdf = (\<lambda>url fname. Returns (success_result ''PDF downloaded successfully''
                                                 (DownloadData ''/uploads/downloads/form-1.pdf''))),
         pa_extractFormFields = (\<lambda>p prov. Returns (success_result ''Form fields extracted successfully''
                                                 (FieldsData (Some []) None)))\<rparr>
        8 9 (service_workflowId 7) ''https://example.org/form.pdf'' None None
        (snd (startPdfAnalysisWorkflow 7 7 (Some ''https://example.org/form.pdf'') initial_service)))
     (service_workflowId 7)
   = StatusFinished
       \<lparr>fb_workflowId = ''pdf-analysis-7'', fb_status = ''success'', fb_startTime = 7,
        fb_completedTime = Some 9, fb_result = None\<rparr>
   \<and> orchestrator_cache
       (runWorkflowAsync
        \<lparr>pa_downloadPdf = (\<lambda>url fname. Returns (success_result ''PDF downloaded successfully''
                                                 (DownloadData ''/uploads/downloads/form-1.pdf''))),
         pa_extractFormFields = (\<lambda>p prov. Returns (success_result ''Form fields extracted successfully''
                                                 (FieldsData (Some []) None)))\<rparr>
        8 9 (service_workflowId 7) ''https://example.org/form.pdf'' None None
        (snd (startPdfAnalysisWorkflow 7 7 (Some ''https://example.org/form.pdf'') initial_service)))
     = [''workflow-8-download'' \<mapsto>
          CachedDownload (success_result ''PDF downloaded successfully''
                            (DownloadData ''/uploads/downloads/form-1.pdf'')),
        ''workflow-8-extraction'' \<mapsto>
          CachedFields (success_result ''Form fields extracted successfully''
                          (FieldsData (Some []) None))]"
proof -
  have eight: "string_of_nat 8 = ''8''" by code_simp
  show ?thesis
    by (simp add: getWorkflowStatus_def runWorkflowAsync_def startPdfAnalysisWorkflow_def
          runPdfAnalysisWorkflow_def initial_service_def service_workflowId_def
          analysis_workflowId_def analysis_getWorkflowResult_def status_string_def
          success_result_def string_of_nat_7 eight Let_def)
qed

text \<open>
  The same holds for every run: the keys the orchestrator sets start with \<open>workflow-\<close>,
  the keys the service asks for start with \<open>pdf-analysis-\<close>, so a run never fills the
  entries its status query reads.
\<close>

lemma analysis_run_cache_other_keys:
  assumes "k \<noteq> analysis_workflowId now @ ''-download''"
    and "k \<noteq> analysis_workflowId now @ ''-extraction''"
  shows "snd (runPdfAnalysisWorkflow env now cache url opts) k = cache k"
  using assms
  by (auto simp: runPdfAnalysisWorkflow_def Let_def split: outcome.splits option.splits)

lemma service_id_differs:
  "service_workflowId t @ sfx \<noteq> analysis_workflowId t' @ sfx'"
  by (simp add: service_workflowId_def analysis_workflowId_def)

lemma every_service_run_reports_null:
  assumes "orchestrator_cache s (service_workflowId t @ ''-download'') = None"
  shows "\<exists>body. getWorkflowStatus
                  (runWorkflowAsync env now finished (service_workflowId t) url prov fname s)
                  (service_workflowId t) = StatusFinished body
              \<and> fb_result body = None"
proof -
  let ?opts = "Some \<lparr>pa_analysisProvider = prov, pa_filename = fname,
                       pa_skipDownloadOnError = None\<rparr>"
  let ?run = "runPdfAnalysisWorkflow env now (orchestrator_cache s) url ?opts"
  have d1: "service_workflowId t @ ''-download'' \<noteq> analysis_workflowId now @ ''-download''"
    by (rule service_id_differs)
  have d2: "service_workflowId t @ ''-download'' \<noteq> analysis_workflowId now @ ''-extraction''"
    by (rule service_id_differs)
  have "snd ?run (service_workflowId t @ ''-download'') = None"
    unfolding analysis_run_cache_other_keys [OF d1 d2] by (rule assms)
  then have res: "analysis_getWorkflowResult (snd ?run) (service_workflowId t) = None"
    by (simp add: analysis_getWorkflowResult_def)
  have st: "status_string (status (fst ?run)) \<noteq> ''running''"
    by (cases "status (fst ?run)") (simp_all add: status_string_def)
  have ne: "service_workflowId t \<noteq> []"
    by (simp add: service_workflowId_def)
  obtain r c where rc: "?run = (r, c)"
    by (cases ?run)
  with res st have "analysis_getWorkflowResult c (service_workflowId t) = None"
    and "status_string (status r) \<noteq> ''running''"
    by simp_all
  with ne rc show ?thesis
    by (simp add: getWorkflowStatus_def runWorkflowAsync_def)
qed

end
